theory Spec2Isabelle
  imports Complex_Main "HOL-Library.Sublist"
begin

section \<open>The live telemetry pipeline of study-eyes\<close>

text \<open>
  The pipeline exists three times in the sources: \<^verbatim>\<open>RealWebSocketService\<close> and
  \<^verbatim>\<open>WebSocketService\<close> (both in \<^verbatim>\<open>frontend/src/services/realWebSocketService.ts\<close>)
  talk to a socket.io transport, \<^verbatim>\<open>MockWebSocketService\<close> is the synthetic generator.
  Each class is embedded as a record of its private fields and one function per method or
  socket handler. A method returns the new state together with the list of effects it
  performed, in program order.

  Conventions of the embedding:
  \<^item> JavaScript numbers are real numbers (no rounding, no NaN); counters and delays are
    natural numbers.
  \<^item> A callback is the identity of a function object (a number); what it does when called
    is outside the services, except that it may throw. The parameter \<open>thr\<close> tells for
    which payloads a callback throws. Callbacks do not call back into the service.
  \<^item> Socket events, timers firing, the clock, \<^verbatim>\<open>Math.random()\<close> and
    \<^verbatim>\<open>localStorage\<close> are inputs of the functions.
  \<^item> socket.io itself is not part of the sources. A call into it (\<^verbatim>\<open>io\<close>,
    \<^verbatim>\<open>socket.connect\<close>, \<^verbatim>\<open>socket.disconnect\<close>, \<^verbatim>\<open>socket.emit\<close>) is an effect,
    and every event it raises is a step of its own, handled by the handler the class has
    installed for it.
\<close>

subsection \<open>Payloads\<close>

text \<open>The wire format \<^verbatim>\<open>TrackingData\<close> of the backend.\<close>

record TrackingData =
  session_id :: string
  timestamp :: string
  attention_score :: real
  focus_level :: string
  distraction_type :: string
  fatigue_level :: string
  eye_strain_level :: real
  posture_score :: real
  gaze_direction_x :: real
  gaze_direction_y :: real
  left_eye_ratio :: real
  right_eye_ratio :: real
  blink_detected :: bool
  head_pitch :: real
  head_yaw :: real
  head_roll :: real
  is_focused :: bool
  face_landmarks :: "nat option"

text \<open>
  The object \<^verbatim>\<open>transformedData\<close> built by the \<^verbatim>\<open>tracking_data\<close> handler; nested
  objects are tuples: gaze \<open>(x, y)\<close>, eyes \<open>(left_ratio, right_ratio, blink_detected)\<close>,
  head pose \<open>(pitch, yaw, roll)\<close>.
\<close>

record TransformedData =
  t_timestamp :: string
  t_attention_score :: real
  t_focus_level :: string
  t_distraction_type :: string
  t_fatigue_level :: string
  t_eye_strain_level :: real
  t_posture_score :: real
  t_gaze :: "real \<times> real"
  t_eyes :: "real \<times> real \<times> bool"
  t_head_pose :: "real \<times> real \<times> real"
  t_face_landmarks :: "nat option"
  t_is_focused :: bool

text \<open>
  The object \<^verbatim>\<open>mockData\<close> of the synthetic generator: gaze position \<open>(x, y)\<close>, focus
  zones \<open>(screen_center, peripheral)\<close>.
\<close>

record MockData =
  m_timestamp :: int
  m_attention_score :: real
  m_eye_strain_level :: real
  m_posture_score :: real
  m_blink_rate :: real
  m_gaze_position :: "real \<times> real"
  m_focus_zones :: "bool \<times> bool"
  m_session_active :: bool

text \<open>
  An alert. The transport path stamps it with the frame's timestamp string and gives it no
  id; the generator stamps it with \<^verbatim>\<open>new Date()\<close> and the id \<^verbatim>\<open>Date.now()\<close>.
\<close>

datatype stamp = Iso string | Millis int

record Alert =
  a_type :: string
  a_message :: string
  a_severity :: string
  a_timestamp :: stamp
  a_id :: "int option"

datatype payload =
    Undefined
  | ConnStatus bool "string option"
  | ErrorMsg string
  | Frame TransformedData
  | MockFrame MockData
  | Score real
  | AlertP Alert
  | TrackingStatus string nat
  | SessionId string
  | ServerData nat

subsection \<open>Effects\<close>

datatype level = LvlLog | LvlWarn | LvlError

text \<open>
  \<open>Emit ev d\<close> records a call of the service's own \<^verbatim>\<open>emit(ev, d)\<close>, \<open>Invoke cb ev d\<close>
  the call \<^verbatim>\<open>cb(d)\<close> made for it; \<open>Console\<close> is \<^verbatim>\<open>console.log/warn/error\<close> with the
  constant part of its message; \<open>SocketEmit c sid tok\<close> is \<^verbatim>\<open>socket.emit(c, \<dots>)\<close> with
  the session id and the token field (\<open>None\<close>: no token field, \<open>Some None\<close>: \<^verbatim>\<open>null\<close>);
  \<open>SocketSend c\<close> is \<^verbatim>\<open>socket.emit(c, \<dots>)\<close> of a method that passes data on.
\<close>

datatype effect =
    Emit string payload
  | Invoke nat string payload
  | Console level string
  | SocketEmit string string "string option option"
  | SocketSend string
  | SetTimeout nat
  | SetInterval nat nat
  | ClearInterval nat
  | IoCreate
  | SocketConnect
  | SocketDisconnect

type_synonym callback = nat
type_synonym throws = "callback \<Rightarrow> payload \<Rightarrow> bool"
type_synonym listeners = "string \<rightharpoonup> callback list"

fun scheduled :: "effect list \<Rightarrow> nat list" where
  "scheduled [] = []"
| "scheduled (SetTimeout d # es) = d # scheduled es"
| "scheduled (e # es) = scheduled es"

fun started :: "effect list \<Rightarrow> nat list" where
  "started [] = []"
| "started (SetInterval h p # es) = h # started es"
| "started (e # es) = started es"

fun emitted :: "string \<Rightarrow> effect list \<Rightarrow> payload list" where
  "emitted ev [] = []"
| "emitted ev (Emit ev' d # es) = (if ev' = ev then d # emitted ev es else emitted ev es)"
| "emitted ev (e # es) = emitted ev es"

fun invoked :: "callback \<Rightarrow> string \<Rightarrow> effect list \<Rightarrow> payload list" where
  "invoked cb ev [] = []"
| "invoked cb ev (Invoke cb' ev' d # es) =
     (if cb' = cb \<and> ev' = ev then d # invoked cb ev es else invoked cb ev es)"
| "invoked cb ev (e # es) = invoked cb ev es"

fun called :: "effect list \<Rightarrow> callback list" where
  "called [] = []"
| "called (Invoke cb ev d # es) = cb # called es"
| "called (e # es) = called es"

fun sent :: "effect list \<Rightarrow> effect list" where
  "sent [] = []"
| "sent (SocketEmit c sid tok # es) = SocketEmit c sid tok # sent es"
| "sent (e # es) = sent es"

fun alerts_of :: "effect list \<Rightarrow> Alert list" where
  "alerts_of [] = []"
| "alerts_of (Emit ev (AlertP a) # es) =
     (if ev = ''attention_alert'' then a # alerts_of es else alerts_of es)"
| "alerts_of (e # es) = alerts_of es"

subsection \<open>The listener registry shared by the three classes\<close>

text \<open>The callbacks registered for an event, in the order of registration.\<close>

definition listeners_of :: "listeners \<Rightarrow> string \<Rightarrow> callback list" where
  "listeners_of ls ev = (case ls ev of None \<Rightarrow> [] | Some cbs \<Rightarrow> cbs)"

text \<open>
  \<^verbatim>\<open>on\<close>: create the array when the event has none, then push.
\<close>

definition on_listeners :: "listeners \<Rightarrow> string \<Rightarrow> callback \<Rightarrow> listeners" where
  "on_listeners ls ev cb =
     (case ls ev of None \<Rightarrow> ls(ev \<mapsto> [cb]) | Some cbs \<Rightarrow> ls(ev \<mapsto> cbs @ [cb]))"

text \<open>\<^verbatim>\<open>Array.prototype.indexOf\<close>: the first index holding the value, or \<open>-1\<close>.\<close>

fun indexOf :: "callback list \<Rightarrow> callback \<Rightarrow> int" where
  "indexOf [] cb = -1"
| "indexOf (c # cs) cb =
     (if c = cb then 0 else (let i = indexOf cs cb in if i = -1 then -1 else i + 1))"

text \<open>\<^verbatim>\<open>splice(index, 1)\<close> for an index in range.\<close>

definition splice1 :: "nat \<Rightarrow> 'a list \<Rightarrow> 'a list" where
  "splice1 i xs = take i xs @ drop (Suc i) xs"

definition off_callback :: "listeners \<Rightarrow> string \<Rightarrow> callback \<Rightarrow> listeners" where
  "off_callback ls ev cb =
     (case ls ev of
        None \<Rightarrow> ls
      | Some cbs \<Rightarrow>
          (let index = indexOf cbs cb
           in if index > -1 then ls(ev \<mapsto> splice1 (nat index) cbs) else ls))"

text \<open>
  \<^verbatim>\<open>forEach\<close> with the body in \<^verbatim>\<open>try/catch\<close> (\<^verbatim>\<open>RealWebSocketService.emit\<close>,
  \<^verbatim>\<open>MockWebSocketService.emit\<close>): a throwing callback is logged and the loop goes on.
\<close>

fun forEach_catch :: "throws \<Rightarrow> string \<Rightarrow> string \<Rightarrow> payload \<Rightarrow> callback list \<Rightarrow> effect list" where
  "forEach_catch thr msg ev d [] = []"
| "forEach_catch thr msg ev d (cb # cbs) =
     Invoke cb ev d # (if thr cb d then [Console LvlError msg] else [])
       @ forEach_catch thr msg ev d cbs"

text \<open>
  \<^verbatim>\<open>forEach\<close> with a bare call (\<^verbatim>\<open>WebSocketService.emit\<close>): a throwing callback ends
  the loop and the exception leaves \<^verbatim>\<open>emit\<close>. The flag of the result says whether an
  exception escaped.
\<close>

fun forEach_bare :: "throws \<Rightarrow> string \<Rightarrow> payload \<Rightarrow> callback list \<Rightarrow> effect list \<times> bool" where
  "forEach_bare thr ev d [] = ([], False)"
| "forEach_bare thr ev d (cb # cbs) =
     (if thr cb d then ([Invoke cb ev d], True)
      else (let (es, t) = forEach_bare thr ev d cbs in (Invoke cb ev d # es, t)))"

text \<open>The JavaScript \<^verbatim>\<open>m || dflt\<close> on an optional string: a missing or empty one is falsy.\<close>

definition or_default :: "string option \<Rightarrow> string \<Rightarrow> string" where
  "or_default m dflt = (case m of None \<Rightarrow> dflt | Some v \<Rightarrow> if v = [] then dflt else v)"


subsection \<open>RealWebSocketService\<close>

record real_state =
  real_socket :: "unit option"
  real_eventListeners :: listeners
  real_isConnected :: bool
  real_reconnectAttempts :: nat
  real_maxReconnectAttempts :: nat
  real_reconnectDelay :: nat

text \<open>The field initialisers of the class, before the constructor calls \<^verbatim>\<open>connect()\<close>.\<close>

definition real_init :: real_state where
  "real_init = \<lparr>real_socket = None, real_eventListeners = Map.empty, real_isConnected = False,
     real_reconnectAttempts = 0, real_maxReconnectAttempts = 5, real_reconnectDelay = 1000\<rparr>"

definition real_emit :: "throws \<Rightarrow> real_state \<Rightarrow> string \<Rightarrow> payload \<Rightarrow> effect list" where
  "real_emit thr s ev d =
     Emit ev d #
       (case real_eventListeners s ev of
          None \<Rightarrow> []
        | Some cbs \<Rightarrow> forEach_catch thr ''Error in event listener'' ev d cbs)"

text \<open>
  \<^verbatim>\<open>connect()\<close>: \<open>io_throws\<close> says whether the call of \<^verbatim>\<open>io(\<dots>)\<close> raises, which the
  method catches.
\<close>

definition real_connect :: "throws \<Rightarrow> bool \<Rightarrow> real_state \<Rightarrow> real_state \<times> effect list" where
  "real_connect thr io_throws s =
     (if io_throws
      then (s, Console LvlError ''Failed to create WebSocket connection:''
                 # real_emit thr s ''connection_error'' (ErrorMsg ''Failed to create connection''))
      else (s\<lparr>real_socket := Some ()\<rparr>, [IoCreate]))"

text \<open>The handlers installed by \<^verbatim>\<open>setupEventListeners\<close>, one per socket event.\<close>

definition real_on_connect :: "throws \<Rightarrow> real_state \<Rightarrow> real_state \<times> effect list" where
  "real_on_connect thr s =
     (let s1 = s\<lparr>real_isConnected := True, real_reconnectAttempts := 0\<rparr>
      in (s1, Console LvlLog ''Connected to WebSocket server''
                # real_emit thr s1 ''connection_status'' (ConnStatus True None)))"

definition real_on_disconnect :: "throws \<Rightarrow> real_state \<Rightarrow> string \<Rightarrow> real_state \<times> effect list" where
  "real_on_disconnect thr s reason =
     (let s1 = s\<lparr>real_isConnected := False\<rparr>
      in (s1, Console LvlLog ''Disconnected from WebSocket server:''
                # real_emit thr s1 ''connection_status'' (ConnStatus False (Some reason))
                @ (if real_reconnectAttempts s1 < real_maxReconnectAttempts s1
                   then [SetTimeout (real_reconnectDelay s1 * real_reconnectAttempts s1)]
                   else [])))"

text \<open>The callback given to \<^verbatim>\<open>setTimeout\<close> by the disconnect handler.\<close>

definition real_reconnect_timer :: "throws \<Rightarrow> bool \<Rightarrow> real_state \<Rightarrow> real_state \<times> effect list" where
  "real_reconnect_timer thr io_throws s =
     (let s1 = s\<lparr>real_reconnectAttempts := real_reconnectAttempts s + 1\<rparr>;
          (s2, es) = real_connect thr io_throws s1
      in (s2, Console LvlLog ''Reconnection attempt'' # es))"

definition real_on_connect_error :: "throws \<Rightarrow> real_state \<Rightarrow> string option \<Rightarrow> real_state \<times> effect list" where
  "real_on_connect_error thr s msg =
     (s, Console LvlError ''WebSocket connection error:''
           # real_emit thr s ''connection_error'' (ErrorMsg (or_default msg ''Connection failed'')))"

definition real_on_connected :: "real_state \<Rightarrow> real_state \<times> effect list" where
  "real_on_connected s = (s, [Console LvlLog ''Server confirmed connection:''])"

definition transform :: "TrackingData \<Rightarrow> TransformedData" where
  "transform d =
     \<lparr>t_timestamp = timestamp d,
      t_attention_score = attention_score d,
      t_focus_level = focus_level d,
      t_distraction_type = distraction_type d,
      t_fatigue_level = fatigue_level d,
      t_eye_strain_level = eye_strain_level d,
      t_posture_score = posture_score d,
      t_gaze = (gaze_direction_x d, gaze_direction_y d),
      t_eyes = (left_eye_ratio d, right_eye_ratio d, blink_detected d),
      t_head_pose = (head_pitch d, head_yaw d, head_roll d),
      t_face_landmarks = face_landmarks d,
      t_is_focused = is_focused d\<rparr>"

definition real_on_tracking_data :: "throws \<Rightarrow> real_state \<Rightarrow> TrackingData \<Rightarrow> real_state \<times> effect list" where
  "real_on_tracking_data thr s d =
     (s, real_emit thr s ''eye_tracking_data'' (Frame (transform d))
         @ real_emit thr s ''focus_score_update'' (Score (attention_score d))
         @ (if attention_score d < 60
            then real_emit thr s ''attention_alert''
                   (AlertP \<lparr>a_type = ''low_attention'',
                            a_message = ''Your attention level is low. Take a break or refocus.'',
                            a_severity = ''warning'',
                            a_timestamp = Iso (timestamp d), a_id = None\<rparr>)
            else [])
         @ (if distraction_type d \<noteq> ''none''
            then real_emit thr s ''attention_alert''
                   (AlertP \<lparr>a_type = ''distraction'',
                            a_message = ''Distraction detected: '' @ distraction_type d,
                            a_severity = ''info'',
                            a_timestamp = Iso (timestamp d), a_id = None\<rparr>)
            else [])
         @ (if eye_strain_level d > 20
            then real_emit thr s ''attention_alert''
                   (AlertP \<lparr>a_type = ''eye_strain'',
                            a_message = ''High eye strain detected. Consider taking a break.'',
                            a_severity = ''warning'',
                            a_timestamp = Iso (timestamp d), a_id = None\<rparr>)
            else []))"

definition real_on_tracking_started :: "throws \<Rightarrow> real_state \<Rightarrow> nat \<Rightarrow> real_state \<times> effect list" where
  "real_on_tracking_started thr s d =
     (s, Console LvlLog ''Tracking started:''
           # real_emit thr s ''tracking_status'' (TrackingStatus ''started'' d))"

definition real_on_tracking_stopped :: "throws \<Rightarrow> real_state \<Rightarrow> nat \<Rightarrow> real_state \<times> effect list" where
  "real_on_tracking_stopped thr s d =
     (s, Console LvlLog ''Tracking stopped:''
           # real_emit thr s ''tracking_status'' (TrackingStatus ''stopped'' d))"

definition real_on_tracking_paused :: "throws \<Rightarrow> real_state \<Rightarrow> nat \<Rightarrow> real_state \<times> effect list" where
  "real_on_tracking_paused thr s d =
     (s, Console LvlLog ''Tracking paused:''
           # real_emit thr s ''tracking_status'' (TrackingStatus ''paused'' d))"

definition real_on_tracking_resumed :: "throws \<Rightarrow> real_state \<Rightarrow> nat \<Rightarrow> real_state \<times> effect list" where
  "real_on_tracking_resumed thr s d =
     (s, Console LvlLog ''Tracking resumed:''
           # real_emit thr s ''tracking_status'' (TrackingStatus ''resumed'' d))"

definition real_on_error :: "throws \<Rightarrow> real_state \<Rightarrow> string option \<Rightarrow> real_state \<times> effect list" where
  "real_on_error thr s msg =
     (s, Console LvlError ''WebSocket error:''
           # real_emit thr s ''connection_error'' (ErrorMsg (or_default msg ''Unknown error'')))"

text \<open>A frame as the backend sends it, used in the examples below.\<close>

definition wire_frame :: "string \<Rightarrow> real \<Rightarrow> string \<Rightarrow> real \<Rightarrow> real \<Rightarrow> TrackingData" where
  "wire_frame ts attention distraction eye_strain posture =
     \<lparr>session_id = ''s1'', timestamp = ts, attention_score = attention,
      focus_level = ''high'', distraction_type = distraction, fatigue_level = ''low'',
      eye_strain_level = eye_strain, posture_score = posture,
      gaze_direction_x = 0, gaze_direction_y = 0, left_eye_ratio = 0.3, right_eye_ratio = 0.3,
      blink_detected = False, head_pitch = 0, head_yaw = 0, head_roll = 0,
      is_focused = True, face_landmarks = None\<rparr>"

text \<open>The public methods.\<close>

definition real_startTracking :: "throws \<Rightarrow> real_state \<Rightarrow> string \<Rightarrow> string \<Rightarrow> real_state \<times> effect list" where
  "real_startTracking thr s sessionId token =
     (if real_socket s = None \<or> \<not> real_isConnected s
      then (s, Console LvlError ''WebSocket not connected''
                 # real_emit thr s ''connection_error'' (ErrorMsg ''Not connected to server''))
      else (s, [SocketEmit ''start_tracking'' sessionId (Some (Some token))]))"

text \<open>
  \<^verbatim>\<open>stopTracking\<close>, \<^verbatim>\<open>pauseTracking\<close> and \<^verbatim>\<open>resumeTracking\<close> differ in the command
  name only; \<open>stored\<close> is \<^verbatim>\<open>localStorage.getItem('token')\<close>.
\<close>

definition real_command :: "string \<Rightarrow> real_state \<Rightarrow> string option \<Rightarrow> string \<Rightarrow> real_state \<times> effect list" where
  "real_command cmd s stored sessionId =
     (if real_socket s = None \<or> \<not> real_isConnected s
      then (s, [Console LvlError ''WebSocket not connected''])
      else (s, [SocketEmit cmd sessionId (Some stored)]))"

definition real_stopTracking :: "real_state \<Rightarrow> string option \<Rightarrow> string \<Rightarrow> real_state \<times> effect list" where
  "real_stopTracking = real_command ''stop_tracking''"

definition real_pauseTracking :: "real_state \<Rightarrow> string option \<Rightarrow> string \<Rightarrow> real_state \<times> effect list" where
  "real_pauseTracking = real_command ''pause_tracking''"

definition real_resumeTracking :: "real_state \<Rightarrow> string option \<Rightarrow> string \<Rightarrow> real_state \<times> effect list" where
  "real_resumeTracking = real_command ''resume_tracking''"

definition real_on :: "real_state \<Rightarrow> string \<Rightarrow> callback \<Rightarrow> real_state" where
  "real_on s ev cb = s\<lparr>real_eventListeners := on_listeners (real_eventListeners s) ev cb\<rparr>"

definition real_off :: "real_state \<Rightarrow> string \<Rightarrow> callback \<Rightarrow> real_state" where
  "real_off s ev cb = s\<lparr>real_eventListeners := off_callback (real_eventListeners s) ev cb\<rparr>"

definition real_disconnect :: "real_state \<Rightarrow> real_state \<times> effect list" where
  "real_disconnect s =
     (let (s1, es) = (case real_socket s of
                        Some _ \<Rightarrow> (s\<lparr>real_socket := None\<rparr>, [SocketDisconnect])
                      | None \<Rightarrow> (s, []))
      in (s1\<lparr>real_isConnected := False, real_eventListeners := Map.empty\<rparr>, es))"

definition real_getConnectionStatus :: "real_state \<Rightarrow> bool" where
  "real_getConnectionStatus s = real_isConnected s"

text \<open>Everything that can happen to the service: a method call, a socket event, the timer.\<close>

datatype real_op =
    RStartTracking string string
  | RStopTracking string
  | RPauseTracking string
  | RResumeTracking string
  | ROn string callback
  | ROff string callback
  | RDisconnect
  | RGetConnectionStatus
  | RConnect bool
  | RSockConnect
  | RSockDisconnect string
  | RSockConnectError "string option"
  | RSockConnected
  | RSockTrackingData TrackingData
  | RSockTrackingStarted nat
  | RSockTrackingStopped nat
  | RSockTrackingPaused nat
  | RSockTrackingResumed nat
  | RSockError "string option"
  | RReconnectTimer bool

fun real_step :: "throws \<Rightarrow> string option \<Rightarrow> real_state \<Rightarrow> real_op \<Rightarrow> real_state \<times> effect list" where
  "real_step thr stored s (RStartTracking sid tok) = real_startTracking thr s sid tok"
| "real_step thr stored s (RStopTracking sid) = real_stopTracking s stored sid"
| "real_step thr stored s (RPauseTracking sid) = real_pauseTracking s stored sid"
| "real_step thr stored s (RResumeTracking sid) = real_resumeTracking s stored sid"
| "real_step thr stored s (ROn ev cb) = (real_on s ev cb, [])"
| "real_step thr stored s (ROff ev cb) = (real_off s ev cb, [])"
| "real_step thr stored s RDisconnect = real_disconnect s"
| "real_step thr stored s RGetConnectionStatus = (s, [])"
| "real_step thr stored s (RConnect io_throws) = real_connect thr io_throws s"
| "real_step thr stored s RSockConnect = real_on_connect thr s"
| "real_step thr stored s (RSockDisconnect reason) = real_on_disconnect thr s reason"
| "real_step thr stored s (RSockConnectError msg) = real_on_connect_error thr s msg"
| "real_step thr stored s RSockConnected = real_on_connected s"
| "real_step thr stored s (RSockTrackingData d) = real_on_tracking_data thr s d"
| "real_step thr stored s (RSockTrackingStarted d) = real_on_tracking_started thr s d"
| "real_step thr stored s (RSockTrackingStopped d) = real_on_tracking_stopped thr s d"
| "real_step thr stored s (RSockTrackingPaused d) = real_on_tracking_paused thr s d"
| "real_step thr stored s (RSockTrackingResumed d) = real_on_tracking_resumed thr s d"
| "real_step thr stored s (RSockError msg) = real_on_error thr s msg"
| "real_step thr stored s (RReconnectTimer io_throws) = real_reconnect_timer thr io_throws s"

fun real_steps :: "throws \<Rightarrow> string option \<Rightarrow> real_state \<Rightarrow> real_op list \<Rightarrow> real_state \<times> effect list" where
  "real_steps thr stored s [] = (s, [])"
| "real_steps thr stored s (op # ops) =
     (let (s1, es1) = real_step thr stored s op;
          (s2, es2) = real_steps thr stored s1 ops
      in (s2, es1 @ es2))"


subsection \<open>WebSocketService\<close>

text \<open>
  \<open>ws_socket\<close> is \<open>None\<close> for \<^verbatim>\<open>null\<close> and \<open>Some c\<close> for a socket whose property
  \<^verbatim>\<open>connected\<close> is \<open>c\<close>. socket.io sets the property before it runs the handlers of
  \<^verbatim>\<open>connect\<close> and \<^verbatim>\<open>disconnect\<close>; the handlers below start with that update.
\<close>

record ws_state =
  ws_socket :: "bool option"
  ws_reconnectAttempts :: nat
  ws_maxReconnectAttempts :: nat
  ws_reconnectDelay :: nat
  ws_listeners :: listeners

definition ws_init :: ws_state where
  "ws_init = \<lparr>ws_socket = None, ws_reconnectAttempts = 0, ws_maxReconnectAttempts = 5,
     ws_reconnectDelay = 1000, ws_listeners = Map.empty\<rparr>"

text \<open>
  A method of this class that calls \<^verbatim>\<open>emit\<close> returns a third component: whether an
  exception of a callback escaped from it. What the method did before is kept.
\<close>

definition ws_emit :: "throws \<Rightarrow> ws_state \<Rightarrow> string \<Rightarrow> payload \<Rightarrow> effect list \<times> bool" where
  "ws_emit thr s ev d =
     (case ws_listeners s ev of
        None \<Rightarrow> ([Emit ev d], False)
      | Some cbs \<Rightarrow> (let (es, t) = forEach_bare thr ev d cbs in (Emit ev d # es, t)))"

text \<open>\<^verbatim>\<open>connect()\<close> has no \<^verbatim>\<open>try/catch\<close>; \<^verbatim>\<open>io(\<dots>)\<close> is taken to return a socket.\<close>

definition ws_connect :: "ws_state \<Rightarrow> ws_state \<times> effect list" where
  "ws_connect s = (s\<lparr>ws_socket := Some False\<rparr>, [IoCreate])"








definition ws_startTracking :: "ws_state \<Rightarrow> string \<Rightarrow> string \<Rightarrow> ws_state \<times> effect list" where
  "ws_startTracking s sessionId token =
     (if ws_socket s = Some True
      then (s, [SocketEmit ''start_tracking'' sessionId (Some (Some token))])
      else (s, [Console LvlWarn ''WebSocket not connected. Cannot start tracking.'']))"




definition ws_on :: "ws_state \<Rightarrow> string \<Rightarrow> callback \<Rightarrow> ws_state" where
  "ws_on s ev cb = s\<lparr>ws_listeners := on_listeners (ws_listeners s) ev cb\<rparr>"

text \<open>\<^verbatim>\<open>off(event, callback?)\<close>: without a callback the whole entry of the event goes.\<close>

definition off_optional :: "listeners \<Rightarrow> string \<Rightarrow> callback option \<Rightarrow> listeners" where
  "off_optional ls ev cbo =
     (if ls ev = None then ls
      else (case cbo of Some cb \<Rightarrow> off_callback ls ev cb | None \<Rightarrow> ls(ev := None)))"

definition ws_off :: "ws_state \<Rightarrow> string \<Rightarrow> callback option \<Rightarrow> ws_state" where
  "ws_off s ev cbo = s\<lparr>ws_listeners := off_optional (ws_listeners s) ev cbo\<rparr>"

definition ws_isConnected :: "ws_state \<Rightarrow> bool" where
  "ws_isConnected s = (case ws_socket s of Some c \<Rightarrow> c | None \<Rightarrow> False)"













subsection \<open>MockWebSocketService\<close>

text \<open>
  Besides the fields of the class the state holds the interval timers that are running in
  the JavaScript runtime (\<open>mock_intervals\<close>, by handle) and the next handle
  \<^verbatim>\<open>setInterval\<close> will return. A handle is truthy.
\<close>

record mock_state =
  mock_eventHandlers :: listeners
  mock_isConnectionActive :: bool
  mock_focusSimulationInterval :: "nat option"
  mock_sessionActive :: bool
  mock_intervals :: "nat list"
  mock_fresh :: nat

definition mock_init :: mock_state where
  "mock_init = \<lparr>mock_eventHandlers = Map.empty, mock_isConnectionActive = False,
     mock_focusSimulationInterval = None, mock_sessionActive = False,
     mock_intervals = [], mock_fresh = 1\<rparr>"

definition mock_emit :: "throws \<Rightarrow> mock_state \<Rightarrow> string \<Rightarrow> payload \<Rightarrow> effect list" where
  "mock_emit thr s ev d =
     Emit ev d #
       (case mock_eventHandlers s ev of
          None \<Rightarrow> []
        | Some cbs \<Rightarrow> forEach_catch thr ''Error in callback'' ev d cbs)"

text \<open>The timer callback of the constructor.\<close>

definition mock_connected_timer :: "throws \<Rightarrow> mock_state \<Rightarrow> mock_state \<times> effect list" where
  "mock_connected_timer thr s =
     (let s1 = s\<lparr>mock_isConnectionActive := True\<rparr>
      in (s1, mock_emit thr s1 ''connection_status'' (ConnStatus True None)))"

text \<open>
  \<^verbatim>\<open>this.focusSimulationInterval = setInterval(\<dots>, 1000)\<close> and the
  \<^verbatim>\<open>if (this.focusSimulationInterval) { clearInterval(\<dots>); \<dots> = null }\<close> block.
\<close>

definition mock_setInterval :: "mock_state \<Rightarrow> mock_state \<times> effect list" where
  "mock_setInterval s =
     (s\<lparr>mock_focusSimulationInterval := Some (mock_fresh s),
        mock_intervals := mock_intervals s @ [mock_fresh s],
        mock_fresh := Suc (mock_fresh s)\<rparr>,
      [SetInterval (mock_fresh s) 1000])"

definition mock_clearInterval :: "mock_state \<Rightarrow> mock_state \<times> effect list" where
  "mock_clearInterval s =
     (case mock_focusSimulationInterval s of
        Some h \<Rightarrow> (s\<lparr>mock_intervals := removeAll h (mock_intervals s),
                      mock_focusSimulationInterval := None\<rparr>, [ClearInterval h])
      | None \<Rightarrow> (s, []))"

definition mock_startTracking :: "throws \<Rightarrow> mock_state \<Rightarrow> string \<Rightarrow> string \<Rightarrow> mock_state \<times> effect list" where
  "mock_startTracking thr s sessionId token =
     (let s1 = s\<lparr>mock_sessionActive := True\<rparr>;
          es1 = Console LvlLog ''Starting mock tracking for session:''
                  # mock_emit thr s1 ''session_started'' (SessionId sessionId);
          (s2, es2) = mock_setInterval s1
      in (s2, es1 @ es2))"

definition mock_stopTracking :: "throws \<Rightarrow> mock_state \<Rightarrow> string \<Rightarrow> mock_state \<times> effect list" where
  "mock_stopTracking thr s sessionId =
     (let s1 = s\<lparr>mock_sessionActive := False\<rparr>;
          (s2, es2) = mock_clearInterval s1
      in (s2, Console LvlLog ''Stopping mock tracking for session:'' # es2
                @ mock_emit thr s2 ''session_ended'' (SessionId sessionId)))"

definition mock_pauseTracking :: "throws \<Rightarrow> mock_state \<Rightarrow> string \<Rightarrow> mock_state \<times> effect list" where
  "mock_pauseTracking thr s sessionId =
     (let (s1, es1) = mock_clearInterval s
      in (s1, es1 @ mock_emit thr s1 ''session_paused'' (SessionId sessionId)))"

definition mock_resumeTracking :: "throws \<Rightarrow> mock_state \<Rightarrow> string \<Rightarrow> mock_state \<times> effect list" where
  "mock_resumeTracking thr s sessionId =
     (let (s1, es1) = (if mock_sessionActive s then mock_setInterval s else (s, []))
      in (s1, es1 @ mock_emit thr s1 ''session_resumed'' (SessionId sessionId)))"

text \<open>
  The inputs of one tick: \<open>env_clock k\<close> is the value of the \<open>k\<close>-th place that reads the
  clock (0: \<^verbatim>\<open>timestamp\<close>; 1, 2: \<^verbatim>\<open>new Date()\<close> and \<^verbatim>\<open>Date.now()\<close> of the first
  alert; 3, 4 and 5, 6: of the second and third), \<open>env_random k\<close> the value of the \<open>k\<close>-th
  place that calls \<^verbatim>\<open>Math.random()\<close> (0: noise, 1: eye strain, 2: posture, 3: blink
  rate, 4, 5: gaze, 6, 7, 8: the three alert gates).
\<close>

record env =
  env_clock :: "nat \<Rightarrow> int"
  env_random :: "nat \<Rightarrow> real"

definition mock_generateMockFocusData :: "throws \<Rightarrow> mock_state \<Rightarrow> env \<Rightarrow> effect list" where
  "mock_generateMockFocusData thr s e =
     (if \<not> mock_sessionActive s then []
      else
        (let timestamp = env_clock e 0;
             baseAttention = 75 + sin (real_of_int timestamp / 20000) * 20;
             noise = (env_random e 0 - 0.5) * 10;
             attention_score = max 0 (min 1 ((baseAttention + noise) / 100));
             eyeStrainBase = 15 + sin (real_of_int timestamp / 30000) * 10;
             eye_strain_level = max 0 (min 50 (eyeStrainBase + (env_random e 1 - 0.5) * 5));
             postureBase = 85 + sin (real_of_int timestamp / 25000) * 10;
             posture_score = max 60 (min 100 (postureBase + (env_random e 2 - 0.5) * 5));
             mockData =
               \<lparr>m_timestamp = timestamp,
                m_attention_score = attention_score,
                m_eye_strain_level = eye_strain_level,
                m_posture_score = posture_score,
                m_blink_rate = env_random e 3 * 5 + 15,
                m_gaze_position =
                  (0.5 + (env_random e 4 - 0.5) * 0.3, 0.5 + (env_random e 5 - 0.5) * 0.3),
                m_focus_zones = (attention_score > 0.7, attention_score < 0.5),
                m_session_active = True\<rparr>
         in mock_emit thr s ''eye_tracking_data'' (MockFrame mockData)
            @ mock_emit thr s ''focus_score_update''
                (Score (of_int (round (attention_score * 100))))
            @ (if attention_score < 0.4 \<and> env_random e 6 < 0.15
               then mock_emit thr s ''attention_alert''
                      (AlertP \<lparr>a_type = ''low_attention'',
                               a_message = ''Low attention detected - consider taking a short break'',
                               a_severity = ''warning'',
                               a_timestamp = Millis (env_clock e 1),
                               a_id = Some (env_clock e 2)\<rparr>)
               else [])
            @ (if eye_strain_level > 30 \<and> env_random e 7 < 0.1
               then mock_emit thr s ''attention_alert''
                      (AlertP \<lparr>a_type = ''eye_strain'',
                               a_message = ''High eye strain detected - look away from screen for 20 seconds'',
                               a_severity = ''error'',
                               a_timestamp = Millis (env_clock e 3),
                               a_id = Some (env_clock e 4)\<rparr>)
               else [])
            @ (if posture_score < 70 \<and> env_random e 8 < 0.08
               then mock_emit thr s ''attention_alert''
                      (AlertP \<lparr>a_type = ''posture'',
                               a_message = ''Poor posture detected - adjust your sitting position'',
                               a_severity = ''warning'',
                               a_timestamp = Millis (env_clock e 5),
                               a_id = Some (env_clock e 6)\<rparr>)
               else [])))"

text \<open>The interval timer with handle \<open>h\<close> fires, if it is still running.\<close>

definition mock_tick :: "throws \<Rightarrow> mock_state \<Rightarrow> nat \<Rightarrow> env \<Rightarrow> effect list" where
  "mock_tick thr s h e =
     (if h \<in> set (mock_intervals s) then mock_generateMockFocusData thr s e else [])"

definition mock_on :: "mock_state \<Rightarrow> string \<Rightarrow> callback \<Rightarrow> mock_state" where
  "mock_on s ev cb = s\<lparr>mock_eventHandlers := on_listeners (mock_eventHandlers s) ev cb\<rparr>"

definition mock_off :: "mock_state \<Rightarrow> string \<Rightarrow> callback option \<Rightarrow> mock_state" where
  "mock_off s ev cbo = s\<lparr>mock_eventHandlers := off_optional (mock_eventHandlers s) ev cbo\<rparr>"

definition mock_isConnected :: "mock_state \<Rightarrow> bool" where
  "mock_isConnected s = mock_isConnectionActive s"

definition mock_disconnect :: "mock_state \<Rightarrow> mock_state \<times> effect list" where
  "mock_disconnect s = mock_clearInterval (s\<lparr>mock_isConnectionActive := False\<rparr>)"


subsection \<open>The ranges of a telemetry frame\<close>

text \<open>
  The range invariants that the specification gives for a canonical telemetry frame
  (data model, \<^verbatim>\<open>TelemetryFrame\<close>), as a predicate on the attention score, the eye
  strain level, the posture score and the gaze \<open>(x, y)\<close>. It follows the words of the
  specification; no function of the sources computes it.
\<close>

definition TelemetryFrame_ranges :: "real \<Rightarrow> real \<Rightarrow> real \<Rightarrow> real \<times> real \<Rightarrow> bool" where
  "TelemetryFrame_ranges attention eye_strain posture gaze =
     (0 \<le> attention \<and> attention \<le> 1 \<and> 0 \<le> eye_strain \<and> eye_strain \<le> 100
      \<and> 0 \<le> posture \<and> posture \<le> 100
      \<and> -1 \<le> fst gaze \<and> fst gaze \<le> 1 \<and> -1 \<le> snd gaze \<and> snd gaze \<le> 1)"

text \<open>Kind and severity of an alert.\<close>

definition kind_severity :: "Alert \<Rightarrow> string \<times> string" where
  "kind_severity a = (a_type a, a_severity a)"

section \<open>Properties\<close>

subsection \<open>Auxiliary facts about effect lists and the registry\<close>

lemma scheduled_append: "scheduled (xs @ ys) = scheduled xs @ scheduled ys"
  by (induction xs rule: scheduled.induct) auto



lemma forEach_bare_quiet:
  "\<forall>cb\<in>set cbs. \<not> thr cb d \<Longrightarrow> forEach_bare thr ev d cbs = (map (\<lambda>cb. Invoke cb ev d) cbs, False)"
  by (induction cbs) auto

lemma ws_emit_quiet:
  "\<forall>cb\<in>set (listeners_of (ws_listeners s) ev). \<not> thr cb d \<Longrightarrow>
     ws_emit thr s ev d = (Emit ev d # map (\<lambda>cb. Invoke cb ev d) (listeners_of (ws_listeners s) ev), False)"
  by (auto simp: ws_emit_def listeners_of_def forEach_bare_quiet split: option.splits)

lemma scheduled_map_Invoke [simp]: "scheduled (map (\<lambda>cb. Invoke cb ev d) cbs) = []"
  by (induction cbs) auto

lemma emitted_append: "emitted ev (xs @ ys) = emitted ev xs @ emitted ev ys"
  by (induction xs rule: emitted.induct) auto

lemma emitted_map_Invoke [simp]: "emitted ev' (map (\<lambda>cb. Invoke cb ev d) cbs) = []"
  by (induction cbs) auto

lemma invoked_append: "invoked cb ev (xs @ ys) = invoked cb ev xs @ invoked cb ev ys"
  by (induction xs rule: invoked.induct) auto

lemma invoked_forEach_catch:
  "invoked cb ev (forEach_catch thr msg ev' d cbs) =
     (if ev' = ev then replicate (count_list cbs cb) d else [])"
  by (induction cbs) (auto simp: invoked_append)

lemma emitted_forEach_catch: "emitted ev (forEach_catch thr msg ev' d cbs) = []"
  by (induction cbs) (auto simp: emitted_append)

lemma invoked_real_emit:
  "invoked cb ev (real_emit thr s ev' d) =
     (if ev' = ev then replicate (count_list (listeners_of (real_eventListeners s) ev) cb) d else [])"
  by (auto simp: real_emit_def listeners_of_def invoked_forEach_catch split: option.splits)

lemma emitted_real_emit:
  "emitted ev (real_emit thr s ev' d) = (if ev' = ev then [d] else [])"
  by (auto simp: real_emit_def emitted_forEach_catch split: option.splits)

lemma indexOf_ge: "indexOf cbs cb \<ge> -1"
  by (induction cbs) (auto simp: Let_def)

lemma indexOf_none: "indexOf cbs cb = -1 \<longleftrightarrow> cb \<notin> set cbs"
proof (induction cbs)
  case Nil
  then show ?case by simp
next
  case (Cons c cs)
  have "indexOf cs cb + 1 \<noteq> -1"
    using indexOf_ge [of cs cb] by linarith
  with Cons show ?case by (auto simp: Let_def)
qed

lemma splice1_indexOf: "cb \<in> set cbs \<Longrightarrow> splice1 (nat (indexOf cbs cb)) cbs = remove1 cb cbs"
proof (induction cbs)
  case Nil
  then show ?case by simp
next
  case (Cons c cs)
  show ?case
  proof (cases "c = cb")
    case True
    then show ?thesis by (simp add: splice1_def)
  next
    case False
    with Cons.prems have in_cs: "cb \<in> set cs" by simp
    then have "indexOf cs cb \<noteq> -1" by (simp add: indexOf_none)
    moreover have "indexOf cs cb \<ge> -1" by (rule indexOf_ge)
    ultimately have nn: "indexOf cs cb \<ge> 0" by linarith
    then have "nat (indexOf cs cb + 1) = Suc (nat (indexOf cs cb))" by linarith
    then show ?thesis
      using False Cons.IH [OF in_cs] \<open>indexOf cs cb \<noteq> -1\<close>
      by (simp add: splice1_def Let_def)
  qed
qed

lemma listeners_of_off_callback:
  "listeners_of (off_callback ls ev cb) ev' =
     (if ev' = ev then remove1 cb (listeners_of ls ev) else listeners_of ls ev')"
proof (cases "ls ev")
  case None
  then show ?thesis by (auto simp: off_callback_def listeners_of_def)
next
  case (Some cbs)
  show ?thesis
  proof (cases "cb \<in> set cbs")
    case True
    then have "indexOf cbs cb > -1" using indexOf_none [of cbs cb] indexOf_ge [of cbs cb] by linarith
    then show ?thesis
      using Some True by (auto simp: off_callback_def listeners_of_def Let_def splice1_indexOf)
  next
    case False
    then have "indexOf cbs cb = -1" by (simp add: indexOf_none)
    then show ?thesis
      using Some False by (auto simp: off_callback_def listeners_of_def Let_def remove1_idem)
  qed
qed

lemma listeners_of_on_listeners:
  "listeners_of (on_listeners ls ev cb) ev' =
     (if ev' = ev then listeners_of ls ev @ [cb] else listeners_of ls ev')"
  by (auto simp: on_listeners_def listeners_of_def split: option.splits)

lemma real_step_listeners:
  "real_eventListeners (fst (real_step thr stored s op)) =
     (case op of
        ROn ev cb \<Rightarrow> on_listeners (real_eventListeners s) ev cb
      | ROff ev cb \<Rightarrow> off_callback (real_eventListeners s) ev cb
      | RDisconnect \<Rightarrow> Map.empty
      | _ \<Rightarrow> real_eventListeners s)"
  by (cases op)
    (auto simp: real_startTracking_def real_stopTracking_def real_pauseTracking_def
      real_resumeTracking_def real_command_def real_on_def real_off_def real_disconnect_def
      real_connect_def real_on_connect_def real_on_disconnect_def real_on_connect_error_def
      real_on_connected_def real_on_tracking_data_def real_on_tracking_started_def
      real_on_tracking_stopped_def real_on_tracking_paused_def real_on_tracking_resumed_def
      real_on_error_def real_reconnect_timer_def Let_def split: option.splits prod.splits)

lemma real_step_keeps:
  assumes "cb \<in> set (listeners_of (real_eventListeners s) ev)"
    and "op \<noteq> ROff ev cb" and "op \<noteq> RDisconnect"
  shows "cb \<in> set (listeners_of (real_eventListeners (fst (real_step thr stored s op))) ev)"
proof (cases op)
  case (ROff ev' cb')
  then have "ev' \<noteq> ev \<or> cb' \<noteq> cb" using assms(2) by auto
  then show ?thesis
    using assms(1) ROff
    by (auto simp: real_off_def listeners_of_off_callback)
next
  case (ROn ev' cb')
  then show ?thesis
    using assms(1) by (auto simp: real_on_def listeners_of_on_listeners)
qed (use assms real_step_listeners [of thr stored s op] in \<open>auto simp del: real_step.simps\<close>)

lemma real_steps_Cons:
  "fst (real_steps thr stored s (op # ops)) =
     fst (real_steps thr stored (fst (real_step thr stored s op)) ops)"
  "snd (real_steps thr stored s (op # ops)) =
     snd (real_step thr stored s op) @ snd (real_steps thr stored (fst (real_step thr stored s op)) ops)"
  by (simp_all add: Let_def split: prod.splits)

lemma real_steps_keeps:
  assumes "cb \<in> set (listeners_of (real_eventListeners s) ev)"
    and "ROff ev cb \<notin> set ops" and "RDisconnect \<notin> set ops"
  shows "cb \<in> set (listeners_of (real_eventListeners (fst (real_steps thr stored s ops))) ev)"
  using assms
proof (induction ops arbitrary: s)
  case Nil
  then show ?case by simp
next
  case (Cons op ops)
  have "cb \<in> set (listeners_of (real_eventListeners (fst (real_step thr stored s op))) ev)"
    using Cons.prems by (intro real_step_keeps) auto
  then have "cb \<in> set (listeners_of (real_eventListeners
      (fst (real_steps thr stored (fst (real_step thr stored s op)) ops))) ev)"
    using Cons.prems by (intro Cons.IH) auto
  then show ?case
    by (simp only: real_steps_Cons)
qed


lemma real_step_invoked:
  "invoked cb ev (snd (real_step thr stored s op)) =
     concat (map (replicate (count_list (listeners_of (real_eventListeners s) ev) cb))
       (emitted ev (snd (real_step thr stored s op))))"
  by (cases op)
    (auto simp: real_startTracking_def real_stopTracking_def real_pauseTracking_def
      real_resumeTracking_def real_command_def real_disconnect_def
      real_connect_def real_on_connect_def real_on_disconnect_def real_on_connect_error_def
      real_on_connected_def real_on_tracking_data_def real_on_tracking_started_def
      real_on_tracking_stopped_def real_on_tracking_paused_def real_on_tracking_resumed_def
      real_on_error_def real_reconnect_timer_def Let_def invoked_append emitted_append
      invoked_real_emit emitted_real_emit split: option.splits prod.splits)

lemma subseq_repeated: "0 < n \<Longrightarrow> subseq ds (concat (map (replicate n) ds))"
proof (induction ds)
  case Nil
  then show ?case by simp
next
  case (Cons d ds)
  then obtain m where n: "n = Suc m" by (cases n) auto
  have "subseq ds (replicate m d @ concat (map (replicate n) ds))"
    using Cons by (intro list_emb_append2) simp
  then have "subseq (d # ds) (d # replicate m d @ concat (map (replicate n) ds))"
    by (rule subseq_Cons2)
  moreover have "concat (map (replicate n) (d # ds)) = d # replicate m d @ concat (map (replicate n) ds)"
    unfolding n by simp
  ultimately show ?case by (simp only:)
qed

lemma real_steps_delivers:
  assumes "cb \<in> set (listeners_of (real_eventListeners s) ev)"
    and "ROff ev cb \<notin> set ops" and "RDisconnect \<notin> set ops"
  shows "subseq (emitted ev (snd (real_steps thr stored s ops)))
           (invoked cb ev (snd (real_steps thr stored s ops)))"
  using assms
proof (induction ops arbitrary: s)
  case Nil
  then show ?case by simp
next
  case (Cons op ops)
  let ?s1 = "fst (real_step thr stored s op)"
  have pos: "0 < count_list (listeners_of (real_eventListeners s) ev) cb"
    using Cons.prems(1) count_list_0_iff [of "listeners_of (real_eventListeners s) ev" cb]
    by (cases "count_list (listeners_of (real_eventListeners s) ev) cb") auto
  have here: "subseq (emitted ev (snd (real_step thr stored s op)))
       (invoked cb ev (snd (real_step thr stored s op)))"
    by (simp only: real_step_invoked [of cb ev] subseq_repeated [OF pos])
  have "cb \<in> set (listeners_of (real_eventListeners ?s1) ev)"
    using Cons.prems by (intro real_step_keeps) auto
  then have later: "subseq (emitted ev (snd (real_steps thr stored ?s1 ops)))
       (invoked cb ev (snd (real_steps thr stored ?s1 ops)))"
    using Cons.prems by (intro Cons.IH) auto
  show ?case
    using here later
    by (simp only: real_steps_Cons emitted_append invoked_append list_emb_append_mono)
qed

lemma real_step_absent:
  assumes "cb \<notin> set (listeners_of (real_eventListeners s) ev)" and "op \<noteq> ROn ev cb"
  shows "cb \<notin> set (listeners_of (real_eventListeners (fst (real_step thr stored s op))) ev)"
proof (cases op)
  case (ROff ev' cb')
  then show ?thesis
    using assms(1) notin_set_remove1 [of cb "listeners_of (real_eventListeners s) ev" cb']
    by (auto simp: real_off_def listeners_of_off_callback)
next
  case (ROn ev' cb')
  then have "ev' \<noteq> ev \<or> cb' \<noteq> cb" using assms(2) by auto
  then show ?thesis
    using assms(1) ROn by (auto simp: real_on_def listeners_of_on_listeners)
next
  case RDisconnect
  then show ?thesis by (simp add: real_disconnect_def listeners_of_def split: option.splits)
qed (use assms real_step_listeners [of thr stored s op] in \<open>auto simp del: real_step.simps\<close>)

lemma real_steps_silent:
  assumes "cb \<notin> set (listeners_of (real_eventListeners s) ev)" and "ROn ev cb \<notin> set ops"
  shows "invoked cb ev (snd (real_steps thr stored s ops)) = []
       \<and> cb \<notin> set (listeners_of (real_eventListeners (fst (real_steps thr stored s ops))) ev)"
  using assms
proof (induction ops arbitrary: s)
  case Nil
  then show ?case by simp
next
  case (Cons op ops)
  let ?s1 = "fst (real_step thr stored s op)"
  have zero: "count_list (listeners_of (real_eventListeners s) ev) cb = 0"
    using Cons.prems(1) by (simp add: count_list_0_iff)
  have here: "invoked cb ev (snd (real_step thr stored s op)) = []"
    by (simp only: real_step_invoked [of cb ev] zero) simp
  have "cb \<notin> set (listeners_of (real_eventListeners ?s1) ev)"
    using Cons.prems by (intro real_step_absent) auto
  then have "invoked cb ev (snd (real_steps thr stored ?s1 ops)) = []
       \<and> cb \<notin> set (listeners_of (real_eventListeners (fst (real_steps thr stored ?s1 ops))) ev)"
    using Cons.prems by (intro Cons.IH) auto
  then show ?case
    using here by (simp only: real_steps_Cons invoked_append) simp
qed

lemmas real_defs =
  real_startTracking_def real_stopTracking_def real_pauseTracking_def
  real_resumeTracking_def real_command_def real_on_def real_off_def real_disconnect_def
  real_connect_def real_on_connect_def real_on_disconnect_def real_on_connect_error_def
  real_on_connected_def real_on_tracking_data_def real_on_tracking_started_def
  real_on_tracking_stopped_def real_on_tracking_paused_def real_on_tracking_resumed_def
  real_on_error_def real_reconnect_timer_def real_emit_def real_init_def

lemma listeners_of_off_optional:
  "listeners_of (off_optional ls ev cbo) ev =
     (case cbo of Some cb \<Rightarrow> remove1 cb (listeners_of ls ev) | None \<Rightarrow> [])"
  by (auto simp: off_optional_def listeners_of_off_callback split: option.splits)
     (auto simp: listeners_of_def)

lemma count_list_remove1: "count_list (remove1 x xs) x = count_list xs x - 1"
  by (induction xs) auto

lemma remove1_last_copy: "count_list xs x \<le> 1 \<Longrightarrow> x \<notin> set (remove1 x xs)"
  using count_list_remove1 [of x xs] count_list_0_iff [of "remove1 x xs" x] by simp

lemma started_append: "started (xs @ ys) = started xs @ started ys"
  by (induction xs rule: started.induct) auto

lemma started_forEach_catch: "started (forEach_catch thr msg ev d cbs) = []"
  by (induction cbs) (auto simp: started_append)

lemma started_mock_emit: "started (mock_emit thr s ev d) = []"
  by (auto simp: mock_emit_def started_forEach_catch split: option.splits)

lemma emitted_mock_emit:
  "emitted ev (mock_emit thr s ev' d) = (if ev' = ev then [d] else [])"
  by (auto simp: mock_emit_def emitted_forEach_catch split: option.splits)

lemma invoked_mock_emit:
  "invoked cb ev (mock_emit thr s ev' d) =
     (if ev' = ev then replicate (count_list (listeners_of (mock_eventHandlers s) ev) cb) d else [])"
  by (auto simp: mock_emit_def listeners_of_def invoked_forEach_catch split: option.splits)

lemma mock_stopTracking_state:
  "fst (mock_stopTracking thr s sid) =
     s\<lparr>mock_sessionActive := False, mock_focusSimulationInterval := None,
       mock_intervals := (case mock_focusSimulationInterval s of
                            Some h \<Rightarrow> removeAll h (mock_intervals s) | None \<Rightarrow> mock_intervals s)\<rparr>"
  by (auto simp: mock_stopTracking_def mock_clearInterval_def Let_def split: option.splits prod.splits)

lemma mock_resumeTracking_inactive:
  "\<not> mock_sessionActive s \<Longrightarrow>
     mock_resumeTracking thr s sid = (s, mock_emit thr s ''session_resumed'' (SessionId sid))"
  by (simp add: mock_resumeTracking_def)

lemma mock_resumeTracking_active:
  "mock_sessionActive s \<Longrightarrow>
     mock_resumeTracking thr s sid =
       (fst (mock_setInterval s),
        SetInterval (mock_fresh s) 1000
          # mock_emit thr (fst (mock_setInterval s)) ''session_resumed'' (SessionId sid))"
  by (simp add: mock_resumeTracking_def mock_setInterval_def)

lemma mock_tick_inactive: "\<not> mock_sessionActive s \<Longrightarrow> mock_tick thr s h e = []"
  by (simp add: mock_tick_def mock_generateMockFocusData_def)

lemma emitted_frame_active:
  "mock_sessionActive s \<Longrightarrow>
     emitted ''eye_tracking_data'' (mock_generateMockFocusData thr s e) \<noteq> []"
  by (simp add: mock_generateMockFocusData_def Let_def emitted_append emitted_mock_emit)

lemma sent_append: "sent (xs @ ys) = sent xs @ sent ys"
  by (induction xs rule: sent.induct) auto

lemma sent_forEach_catch: "sent (forEach_catch thr msg ev d cbs) = []"
  by (induction cbs) (auto simp: sent_append)

lemma sent_real_emit: "sent (real_emit thr s ev d) = []"
  by (auto simp: real_emit_def sent_forEach_catch split: option.splits)

lemma scheduled_forEach_catch: "scheduled (forEach_catch thr msg ev d cbs) = []"
  by (induction cbs) (auto simp: scheduled_append)

lemma scheduled_real_emit: "scheduled (real_emit thr s ev d) = []"
  by (auto simp: real_emit_def scheduled_forEach_catch split: option.splits)

lemma alerts_of_append: "alerts_of (xs @ ys) = alerts_of xs @ alerts_of ys"
  by (induction xs rule: alerts_of.induct) auto

lemma alerts_of_forEach_catch: "alerts_of (forEach_catch thr msg ev d cbs) = []"
  by (induction cbs) (auto simp: alerts_of_append)

lemma alerts_of_real_emit:
  "alerts_of (real_emit thr s ev d) =
     (case d of AlertP a \<Rightarrow> if ev = ''attention_alert'' then [a] else [] | _ \<Rightarrow> [])"
  by (cases d) (auto simp: real_emit_def alerts_of_forEach_catch split: option.splits)

lemma alerts_of_mock_emit:
  "alerts_of (mock_emit thr s ev d) =
     (case d of AlertP a \<Rightarrow> if ev = ''attention_alert'' then [a] else [] | _ \<Rightarrow> [])"
  by (cases d) (auto simp: mock_emit_def alerts_of_forEach_catch split: option.splits)

lemma real_on_tracking_data_alerts:
  "map kind_severity (alerts_of (snd (real_on_tracking_data thr s d))) =
     (if attention_score d < 60 then [(''low_attention'', ''warning'')] else [])
     @ (if distraction_type d \<noteq> ''none'' then [(''distraction'', ''info'')] else [])
     @ (if eye_strain_level d > 20 then [(''eye_strain'', ''warning'')] else [])"
  by (simp add: real_on_tracking_data_def alerts_of_append alerts_of_real_emit kind_severity_def)

lemma real_on_tracking_data_state: "fst (real_on_tracking_data thr s d) = s"
  by (simp add: real_on_tracking_data_def)

lemma real_frames_alerts:
  "map kind_severity (alerts_of (snd (real_steps thr stored s (map RSockTrackingData ds)))) =
     concat (map (\<lambda>d. map kind_severity (alerts_of (snd (real_on_tracking_data thr s d)))) ds)"
proof (induction ds)
  case Nil
  then show ?case by simp
next
  case (Cons d ds)
  have "snd (real_steps thr stored s (map RSockTrackingData (d # ds))) =
      snd (real_on_tracking_data thr s d) @ snd (real_steps thr stored s (map RSockTrackingData ds))"
    by (simp add: real_steps_Cons real_on_tracking_data_state del: real_steps.simps)
  then show ?case
    using Cons.IH by (simp add: alerts_of_append del: real_steps.simps)
qed

text \<open>
  The values the generator produces never reach its alert branches: with the sine in
  \<open>[-1, 1]\<close> and the noise drawn from \<open>[0, 1)\<close> the attention score stays at or
  above 0.5, the eye strain level below 27.5 and the posture score at or above 72.5.
\<close>

lemma mock_attention_floor:
  fixes v r :: real
  assumes "-1 \<le> v" "v \<le> 1" "0 \<le> r" "r < 1"
  shows "\<not> max 0 (min 1 ((75 + v * 20 + (r - 0.5) * 10) / 100)) < 0.4"
  using assms by (auto simp: max_def min_def)

lemma mock_eye_strain_ceiling:
  fixes v r :: real
  assumes "-1 \<le> v" "v \<le> 1" "0 \<le> r" "r < 1"
  shows "\<not> max 0 (min 50 (15 + v * 10 + (r - 0.5) * 5)) > 30"
  using assms by (auto simp: max_def min_def)

lemma mock_posture_floor:
  fixes v r :: real
  assumes "-1 \<le> v" "v \<le> 1" "0 \<le> r" "r < 1"
  shows "\<not> max 60 (min 100 (85 + v * 10 + (r - 0.5) * 5)) < 70"
  using assms by (auto simp: max_def min_def)

lemma mock_never_alerts:
  assumes "\<forall>k. 0 \<le> env_random e k \<and> env_random e k < 1"
  shows "alerts_of (mock_generateMockFocusData thr s e) = []"
proof -
  have r: "0 \<le> env_random e k" "env_random e k < 1" for k
    using assms by simp_all
  have a: "\<not> max 0 (min 1 ((75 + sin (real_of_int (env_clock e 0) / 20000) * 20
        + (env_random e 0 - 0.5) * 10) / 100)) < 0.4"
    by (rule mock_attention_floor) (simp_all add: r)
  have b: "\<not> max 0 (min 50 (15 + sin (real_of_int (env_clock e 0) / 30000) * 10
        + (env_random e 1 - 0.5) * 5)) > 30"
    by (rule mock_eye_strain_ceiling) (simp_all add: r)
  have c: "\<not> max 60 (min 100 (85 + sin (real_of_int (env_clock e 0) / 25000) * 10
        + (env_random e 2 - 0.5) * 5)) < 70"
    by (rule mock_posture_floor) (simp_all add: r)
  show ?thesis
    unfolding mock_generateMockFocusData_def Let_def
    by (simp only: a b c simp_thms if_False if_True append_Nil2 split: if_splits)
       (simp add: alerts_of_append alerts_of_mock_emit)
qed


lemma count_kind:
  "length (filter (\<lambda>a. a_type a = K) as) =
     length (filter (\<lambda>k. fst k = K) (map kind_severity as))"
  by (induction as) (auto simp: kind_severity_def)

lemma real_frames_count:
  "length (filter (\<lambda>k. fst k = K)
       (map kind_severity (alerts_of (snd (real_steps thr stored s (map RSockTrackingData ds)))))) =
     (if K = ''low_attention'' then length (filter (\<lambda>d. attention_score d < 60) ds)
      else if K = ''distraction'' then length (filter (\<lambda>d. distraction_type d \<noteq> ''none'') ds)
      else if K = ''eye_strain'' then length (filter (\<lambda>d. eye_strain_level d > 20) ds)
      else 0)"
  unfolding real_frames_alerts
  by (induction ds) (auto simp: real_on_tracking_data_alerts)

lemma clamp_bounds:
  fixes lo hi x :: real
  assumes "lo \<le> hi"
  shows "lo \<le> max lo (min hi x)" and "max lo (min hi x) \<le> hi"
  using assms by (auto simp: max_def min_def)

lemma mock_gaze_bounds:
  fixes r :: real
  assumes "0 \<le> r" "r < 1"
  shows "-1 \<le> 0.5 + (r - 0.5) * 0.3" and "0.5 + (r - 0.5) * 0.3 \<le> 1"
  using assms by (simp_all add: field_simps)

lemma mock_frame_published:
  assumes "mock_sessionActive m"
  shows "\<exists>md. emitted ''eye_tracking_data'' (mock_generateMockFocusData thr m e) = [MockFrame md]
      \<and> invoked cb ''eye_tracking_data'' (mock_generateMockFocusData thr m e) =
          replicate (count_list (listeners_of (mock_eventHandlers m) ''eye_tracking_data'') cb) (MockFrame md)
      \<and> m_attention_score md =
          max 0 (min 1 ((75 + sin (real_of_int (env_clock e 0) / 20000) * 20
            + (env_random e 0 - 0.5) * 10) / 100))
      \<and> m_eye_strain_level md =
          max 0 (min 50 (15 + sin (real_of_int (env_clock e 0) / 30000) * 10
            + (env_random e 1 - 0.5) * 5))
      \<and> m_posture_score md =
          max 60 (min 100 (85 + sin (real_of_int (env_clock e 0) / 25000) * 10
            + (env_random e 2 - 0.5) * 5))
      \<and> m_gaze_position md =
          (0.5 + (env_random e 4 - 0.5) * 0.3, 0.5 + (env_random e 5 - 0.5) * 0.3)"
  using assms
  by (simp add: mock_generateMockFocusData_def Let_def emitted_append emitted_mock_emit
      invoked_append invoked_mock_emit)

subsection \<open>The event bus\<close>

text \<open>
  With the \<^verbatim>\<open>try/catch\<close> of \<^verbatim>\<open>RealWebSocketService.emit\<close> and
  \<^verbatim>\<open>MockWebSocketService.emit\<close>, every callback registered for the event is called,
  in the order of registration, whichever of them throw. \<^verbatim>\<open>WebSocketService.emit\<close>
  lets an exception escape exactly when some registered callback throws.
\<close>

lemma called_forEach_catch: "called (forEach_catch thr msg ev d cbs) = cbs"
proof (induction cbs)
  case Nil
  then show ?case by simp
next
  case (Cons cb cbs)
  then show ?case by (cases "thr cb d") simp_all
qed

lemma real_emit_calls_all:
  "called (real_emit thr s ev d) = listeners_of (real_eventListeners s) ev"
  by (simp add: real_emit_def listeners_of_def called_forEach_catch split: option.splits)

lemma mock_emit_calls_all:
  "called (mock_emit thr s ev d) = listeners_of (mock_eventHandlers s) ev"
  by (simp add: mock_emit_def listeners_of_def called_forEach_catch split: option.splits)



text \<open>
  C5, evaluated at the failing input. Two callbacks are subscribed to
  \<^verbatim>\<open>connection_status\<close> and the first one throws. \<^verbatim>\<open>WebSocketService.emit\<close> calls
  the first callback only and lets the exception escape to the publisher. The
  \<^verbatim>\<open>emit\<close> methods of the other two classes log the exception and call the second
  callback with the same payload.
\<close>

theorem ws_emit_throwing_callback:
  "ws_emit (\<lambda>cb d. cb = 1) (ws_on (ws_on ws_init ''connection_status'' 1) ''connection_status'' 2)
      ''connection_status'' (ConnStatus True None) =
     ([Emit ''connection_status'' (ConnStatus True None),
       Invoke 1 ''connection_status'' (ConnStatus True None)], True)
   \<and> real_emit (\<lambda>cb d. cb = 1) (real_on (real_on real_init ''connection_status'' 1) ''connection_status'' 2)
      ''connection_status'' (ConnStatus True None) =
     [Emit ''connection_status'' (ConnStatus True None),
      Invoke 1 ''connection_status'' (ConnStatus True None),
      Console LvlError ''Error in event listener'',
      Invoke 2 ''connection_status'' (ConnStatus True None)]
   \<and> mock_emit (\<lambda>cb d. cb = 1) (mock_on (mock_on mock_init ''connection_status'' 1) ''connection_status'' 2)
      ''connection_status'' (ConnStatus True None) =
     [Emit ''connection_status'' (ConnStatus True None),
      Invoke 1 ''connection_status'' (ConnStatus True None),
      Console LvlError ''Error in callback'',
      Invoke 2 ''connection_status'' (ConnStatus True None)]"
  by (simp add: ws_emit_def ws_on_def ws_init_def real_emit_def real_on_def real_init_def
      mock_emit_def mock_on_def mock_init_def on_listeners_def)

text \<open>
  C8 (as amended). In \<^verbatim>\<open>RealWebSocketService\<close> a callback registered for an event stays
  registered through every sequence of method calls, socket events and timers that contains
  neither \<^verbatim>\<open>off\<close> for that event and callback nor \<^verbatim>\<open>disconnect()\<close>; every event
  published on its topic during the sequence is delivered to it, and so is every event
  published afterwards. \<^verbatim>\<open>disconnect()\<close> removes all subscriptions.
\<close>

theorem real_subscription_until_off_or_disconnect:
  assumes "cb \<in> set (listeners_of (real_eventListeners s) ev)"
    and "ROff ev cb \<notin> set ops" and "RDisconnect \<notin> set ops"
  shows "cb \<in> set (listeners_of (real_eventListeners (fst (real_steps thr stored s ops))) ev)
       \<and> subseq (emitted ev (snd (real_steps thr stored s ops)))
                 (invoked cb ev (snd (real_steps thr stored s ops)))
       \<and> d \<in> set (invoked cb ev (real_emit thr (fst (real_steps thr stored s ops)) ev d))
       \<and> listeners_of (real_eventListeners (fst (real_disconnect s'))) ev' = []"
proof -
  have kept: "cb \<in> set (listeners_of (real_eventListeners (fst (real_steps thr stored s ops))) ev)"
    using assms by (rule real_steps_keeps)
  then have "0 < count_list (listeners_of (real_eventListeners (fst (real_steps thr stored s ops))) ev) cb"
    using count_list_0_iff [of _ cb] by (metis gr0I)
  then have "d \<in> set (invoked cb ev (real_emit thr (fst (real_steps thr stored s ops)) ev d))"
    by (simp add: invoked_real_emit)
  moreover have "listeners_of (real_eventListeners (fst (real_disconnect s'))) ev' = []"
    by (simp add: real_disconnect_def listeners_of_def split: option.splits)
  ultimately show ?thesis
    using kept real_steps_delivers [OF assms] by blast
qed

theorem real_subscription_until_off_or_disconnect_witness:
  "1 \<in> set (listeners_of (real_eventListeners (fst (real_steps (\<lambda>cb d. False) None
        (real_on real_init ''eye_tracking_data'' 1)
        [RConnect False, RSockConnect, RStartTracking ''s1'' ''tok'',
         RSockTrackingData (wire_frame ''2024-01-01T10:00:00.000Z'' 75 ''none'' 10 90),
         RStopTracking ''s1'']))) ''eye_tracking_data'')
   \<and> subseq (emitted ''eye_tracking_data'' (snd (real_steps (\<lambda>cb d. False) None
        (real_on real_init ''eye_tracking_data'' 1)
        [RConnect False, RSockConnect, RStartTracking ''s1'' ''tok'',
         RSockTrackingData (wire_frame ''2024-01-01T10:00:00.000Z'' 75 ''none'' 10 90),
         RStopTracking ''s1''])))
       (invoked 1 ''eye_tracking_data'' (snd (real_steps (\<lambda>cb d. False) None
        (real_on real_init ''eye_tracking_data'' 1)
        [RConnect False, RSockConnect, RStartTracking ''s1'' ''tok'',
         RSockTrackingData (wire_frame ''2024-01-01T10:00:00.000Z'' 75 ''none'' 10 90),
         RStopTracking ''s1''])))"
  using real_subscription_until_off_or_disconnect
    [of 1 "real_on real_init ''eye_tracking_data'' 1" "''eye_tracking_data''"
        "[RConnect False, RSockConnect, RStartTracking ''s1'' ''tok'',
         RSockTrackingData (wire_frame ''2024-01-01T10:00:00.000Z'' 75 ''none'' 10 90),
         RStopTracking ''s1'']" "\<lambda>cb d. False" None]
  by (simp add: real_on_def real_init_def on_listeners_def listeners_of_def)

text \<open>
  C8 as stated fails: after \<^verbatim>\<open>disconnect()\<close> the callback is no longer registered, and
  a frame published after the service has connected again is not delivered to it.
\<close>

theorem real_disconnect_counterexample:
  "listeners_of (real_eventListeners (fst (real_steps (\<lambda>cb d. False) None
        (real_on real_init ''eye_tracking_data'' 1) [RConnect False, RSockConnect, RDisconnect])))
      ''eye_tracking_data'' = []
   \<and> emitted ''eye_tracking_data'' (snd (real_steps (\<lambda>cb d. False) None
        (real_on real_init ''eye_tracking_data'' 1)
        [RConnect False, RSockConnect, RDisconnect, RConnect False, RSockConnect,
         RSockTrackingData (wire_frame ''2024-01-01T10:00:00.000Z'' 75 ''none'' 10 90)])) =
      [Frame (transform (wire_frame ''2024-01-01T10:00:00.000Z'' 75 ''none'' 10 90))]
   \<and> invoked 1 ''eye_tracking_data'' (snd (real_steps (\<lambda>cb d. False) None
        (real_on real_init ''eye_tracking_data'' 1)
        [RConnect False, RSockConnect, RDisconnect, RConnect False, RSockConnect,
         RSockTrackingData (wire_frame ''2024-01-01T10:00:00.000Z'' 75 ''none'' 10 90)])) = []"
  by (simp add: real_defs on_listeners_def listeners_of_def Let_def wire_frame_def)


text \<open>
  C9 (as amended). \<^verbatim>\<open>off(event, callback)\<close> removes the earliest registration of the
  callback for the event and nothing else, in \<^verbatim>\<open>RealWebSocketService\<close> and in
  \<^verbatim>\<open>WebSocketService\<close>. In \<^verbatim>\<open>RealWebSocketService\<close>: if the callback was registered
  at most once, it is called for no event published on that topic afterwards, as long as it
  is not registered again; every other callback registered for the topic still receives
  every event published on it, until it is unsubscribed itself or \<^verbatim>\<open>disconnect()\<close> is
  called.
\<close>

theorem real_off_removes_first_registration:
  "listeners_of (real_eventListeners (real_off s ev cb)) ev =
       remove1 cb (listeners_of (real_eventListeners s) ev)
   \<and> listeners_of (ws_listeners (ws_off w ev (Some cb))) ev =
       remove1 cb (listeners_of (ws_listeners w) ev)
   \<and> (count_list (listeners_of (real_eventListeners s) ev) cb \<le> 1 \<longrightarrow> ROn ev cb \<notin> set ops \<longrightarrow>
        invoked cb ev (snd (real_steps thr stored (real_off s ev cb) ops)) = [])
   \<and> (cb' \<noteq> cb \<longrightarrow> cb' \<in> set (listeners_of (real_eventListeners s) ev) \<longrightarrow>
        ROff ev cb' \<notin> set ops \<longrightarrow> RDisconnect \<notin> set ops \<longrightarrow>
        subseq (emitted ev (snd (real_steps thr stored (real_off s ev cb) ops)))
               (invoked cb' ev (snd (real_steps thr stored (real_off s ev cb) ops))))"
proof -
  let ?L = "listeners_of (real_eventListeners s) ev"
  have off: "listeners_of (real_eventListeners (real_off s ev cb)) ev = remove1 cb ?L"
    by (simp add: real_off_def listeners_of_off_callback)
  have ws: "listeners_of (ws_listeners (ws_off w ev (Some cb))) ev =
       remove1 cb (listeners_of (ws_listeners w) ev)"
    by (simp add: ws_off_def listeners_of_off_optional)
  have gone: "invoked cb ev (snd (real_steps thr stored (real_off s ev cb) ops)) = []"
    if once: "count_list ?L cb \<le> 1" and noon: "ROn ev cb \<notin> set ops"
  proof -
    have "cb \<notin> set (listeners_of (real_eventListeners (real_off s ev cb)) ev)"
      unfolding off by (rule remove1_last_copy [OF once])
    then show ?thesis
      using noon real_steps_silent by blast
  qed
  have others: "subseq (emitted ev (snd (real_steps thr stored (real_off s ev cb) ops)))
               (invoked cb' ev (snd (real_steps thr stored (real_off s ev cb) ops)))"
    if "cb' \<noteq> cb" and "cb' \<in> set ?L" and "ROff ev cb' \<notin> set ops" and "RDisconnect \<notin> set ops"
  proof -
    have "cb' \<in> set (listeners_of (real_eventListeners (real_off s ev cb)) ev)"
      using that(1) that(2) by (simp add: off)
    then show ?thesis
      using that(3) that(4) by (rule real_steps_delivers)
  qed
  show ?thesis
    using off ws gone others by blast
qed

text \<open>
  Two callbacks on one topic, the first unsubscribed, then two frames with a further
  subscription between them: both frames are published, none reaches the unsubscribed
  callback, both reach the other one. Without the \<^verbatim>\<open>off\<close> the first callback would
  have received both.
\<close>

theorem real_off_removes_first_registration_witness:
  "listeners_of (real_eventListeners
      (real_off (real_on (real_on real_init ''eye_tracking_data'' 7) ''eye_tracking_data'' 8)
         ''eye_tracking_data'' 7)) ''eye_tracking_data'' = [8]
   \<and> emitted ''eye_tracking_data'' (snd (real_steps (\<lambda>cb d. False) None
        (real_off (real_on (real_on real_init ''eye_tracking_data'' 7) ''eye_tracking_data'' 8)
           ''eye_tracking_data'' 7)
        [RSockTrackingData (wire_frame ''2024-01-01T10:00:00.000Z'' 75 ''none'' 10 90),
         ROn ''eye_tracking_data'' 9,
         RSockTrackingData (wire_frame ''2024-01-01T10:00:01.000Z'' 70 ''none'' 10 90)])) =
       [Frame (transform (wire_frame ''2024-01-01T10:00:00.000Z'' 75 ''none'' 10 90)),
        Frame (transform (wire_frame ''2024-01-01T10:00:01.000Z'' 70 ''none'' 10 90))]
   \<and> invoked 7 ''eye_tracking_data'' (snd (real_steps (\<lambda>cb d. False) None
        (real_off (real_on (real_on real_init ''eye_tracking_data'' 7) ''eye_tracking_data'' 8)
           ''eye_tracking_data'' 7)
        [RSockTrackingData (wire_frame ''2024-01-01T10:00:00.000Z'' 75 ''none'' 10 90),
         ROn ''eye_tracking_data'' 9,
         RSockTrackingData (wire_frame ''2024-01-01T10:00:01.000Z'' 70 ''none'' 10 90)])) = []
   \<and> subseq
        [Frame (transform (wire_frame ''2024-01-01T10:00:00.000Z'' 75 ''none'' 10 90)),
         Frame (transform (wire_frame ''2024-01-01T10:00:01.000Z'' 70 ''none'' 10 90))]
        (invoked 8 ''eye_tracking_data'' (snd (real_steps (\<lambda>cb d. False) None
          (real_off (real_on (real_on real_init ''eye_tracking_data'' 7) ''eye_tracking_data'' 8)
             ''eye_tracking_data'' 7)
          [RSockTrackingData (wire_frame ''2024-01-01T10:00:00.000Z'' 75 ''none'' 10 90),
           ROn ''eye_tracking_data'' 9,
           RSockTrackingData (wire_frame ''2024-01-01T10:00:01.000Z'' 70 ''none'' 10 90)])))
   \<and> invoked 7 ''eye_tracking_data'' (snd (real_steps (\<lambda>cb d. False) None
        (real_on (real_on real_init ''eye_tracking_data'' 7) ''eye_tracking_data'' 8)
        [RSockTrackingData (wire_frame ''2024-01-01T10:00:00.000Z'' 75 ''none'' 10 90),
         ROn ''eye_tracking_data'' 9,
         RSockTrackingData (wire_frame ''2024-01-01T10:00:01.000Z'' 70 ''none'' 10 90)])) =
       [Frame (transform (wire_frame ''2024-01-01T10:00:00.000Z'' 75 ''none'' 10 90)),
        Frame (transform (wire_frame ''2024-01-01T10:00:01.000Z'' 70 ''none'' 10 90))]"
proof -
  let ?ev = "''eye_tracking_data''"
  let ?s = "real_on (real_on real_init ?ev 7) ?ev 8"
  let ?f1 = "wire_frame ''2024-01-01T10:00:00.000Z'' 75 ''none'' 10 90"
  let ?f2 = "wire_frame ''2024-01-01T10:00:01.000Z'' 70 ''none'' 10 90"
  let ?ops = "[RSockTrackingData ?f1, ROn ?ev 9, RSockTrackingData ?f2]"
  have ls: "listeners_of (real_eventListeners ?s) ?ev = [7, 8]"
    by (simp add: real_on_def real_init_def on_listeners_def listeners_of_def)
  have once: "count_list (listeners_of (real_eventListeners ?s) ?ev) 7 \<le> 1"
    and other: "(8::nat) \<noteq> 7" "8 \<in> set (listeners_of (real_eventListeners ?s) ?ev)"
    unfolding ls by simp_all
  have ops: "ROn ?ev 7 \<notin> set ?ops" "ROff ?ev 8 \<notin> set ?ops" "RDisconnect \<notin> set ?ops"
    by simp_all
  note T = real_off_removes_first_registration [where s = ?s and ev = ?ev and cb = 7 and cb' = 8
      and ops = ?ops and thr = "\<lambda>cb d. False" and stored = None and w = ws_init]
  have a: "listeners_of (real_eventListeners (real_off ?s ?ev 7)) ?ev = [8]"
    using T [THEN conjunct1] unfolding ls by simp
  have e: "emitted ?ev (snd (real_steps (\<lambda>cb d. False) None (real_off ?s ?ev 7) ?ops)) =
      [Frame (transform ?f1), Frame (transform ?f2)]"
    by (simp add: real_on_tracking_data_def emitted_append emitted_real_emit real_on_def)
  have b: "invoked 7 ?ev (snd (real_steps (\<lambda>cb d. False) None (real_off ?s ?ev 7) ?ops)) = []"
    using T [THEN conjunct2, THEN conjunct2, THEN conjunct1] once ops(1) by blast
  have "subseq (emitted ?ev (snd (real_steps (\<lambda>cb d. False) None (real_off ?s ?ev 7) ?ops)))
      (invoked 8 ?ev (snd (real_steps (\<lambda>cb d. False) None (real_off ?s ?ev 7) ?ops)))"
    using T [THEN conjunct2, THEN conjunct2, THEN conjunct2] other ops(2) ops(3) by blast
  then have c: "subseq [Frame (transform ?f1), Frame (transform ?f2)]
      (invoked 8 ?ev (snd (real_steps (\<lambda>cb d. False) None (real_off ?s ?ev 7) ?ops)))"
    by (simp only: e)
  have d: "invoked 7 ?ev (snd (real_steps (\<lambda>cb d. False) None ?s ?ops)) =
      [Frame (transform ?f1), Frame (transform ?f2)]"
    by (simp add: real_on_tracking_data_def real_emit_def real_on_def real_init_def
        on_listeners_def)
  show ?thesis
    using a e b c d by blast
qed

text \<open>
  C9 as stated fails for a callback that was registered twice: one \<^verbatim>\<open>off\<close> leaves the
  second registration, and the next frame is delivered to the callback.
\<close>

theorem real_off_twice_registered_counterexample:
  "invoked 7 ''eye_tracking_data'' (snd (real_steps (\<lambda>cb d. False) None real_init
      [ROn ''eye_tracking_data'' 7, ROn ''eye_tracking_data'' 7, ROff ''eye_tracking_data'' 7,
       RSockTrackingData (wire_frame ''2024-01-01T10:00:00.000Z'' 75 ''none'' 10 90)])) =
     [Frame (transform (wire_frame ''2024-01-01T10:00:00.000Z'' 75 ''none'' 10 90))]"
  by (simp add: real_defs on_listeners_def off_callback_def splice1_def listeners_of_def Let_def wire_frame_def)

subsection \<open>Session commands\<close>

text \<open>
  C6 (as amended). \<^verbatim>\<open>startTracking\<close> on a transport service that is not connected
  sends no \<^verbatim>\<open>start_tracking\<close> command, sets no timer and leaves the state of the
  service as it was, in both transport classes. \<^verbatim>\<open>RealWebSocketService\<close> reports the
  failure by publishing one \<^verbatim>\<open>connection_error\<close> event with the error
  \<^verbatim>\<open>Not connected to server\<close>, which every subscriber of that topic receives.
\<close>

theorem startTracking_not_connected:
  "(real_socket s = None \<or> \<not> real_isConnected s \<longrightarrow>
        fst (real_startTracking thr s sid tok) = s
      \<and> sent (snd (real_startTracking thr s sid tok)) = []
      \<and> scheduled (snd (real_startTracking thr s sid tok)) = []
      \<and> emitted ''connection_error'' (snd (real_startTracking thr s sid tok)) =
          [ErrorMsg ''Not connected to server'']
      \<and> invoked cb ''connection_error'' (snd (real_startTracking thr s sid tok)) =
          replicate (count_list (listeners_of (real_eventListeners s) ''connection_error'') cb)
            (ErrorMsg ''Not connected to server''))
   \<and> (ws_socket w \<noteq> Some True \<longrightarrow>
        fst (ws_startTracking w sid tok) = w
      \<and> sent (snd (ws_startTracking w sid tok)) = []
      \<and> scheduled (snd (ws_startTracking w sid tok)) = [])"
  by (auto simp: real_startTracking_def ws_startTracking_def sent_real_emit scheduled_real_emit
      emitted_real_emit invoked_real_emit)

theorem startTracking_not_connected_witness:
  "emitted ''connection_error''
      (snd (real_startTracking (\<lambda>cb d. False) (fst (real_connect (\<lambda>cb d. False) False real_init))
         ''s1'' ''tok'')) = [ErrorMsg ''Not connected to server'']
   \<and> sent (snd (real_startTracking (\<lambda>cb d. False) (fst (real_connect (\<lambda>cb d. False) False real_init))
         ''s1'' ''tok'')) = []
   \<and> sent (snd (ws_startTracking (fst (ws_connect ws_init)) ''s1'' ''tok'')) = []"
  using startTracking_not_connected
    [of "fst (real_connect (\<lambda>cb d. False) False real_init)" "\<lambda>cb d. False" "''s1''" "''tok''" 0
        "fst (ws_connect ws_init)"]
  by (simp add: real_connect_def real_init_def ws_connect_def ws_init_def)

text \<open>
  C6 as stated fails for \<^verbatim>\<open>WebSocketService\<close>: with a subscriber of
  \<^verbatim>\<open>connection_error\<close> and a socket that is not connected, \<^verbatim>\<open>startTracking\<close>
  publishes nothing and calls nobody; the console warning is all it does.
\<close>

theorem ws_startTracking_counterexample:
  "snd (ws_startTracking (ws_on (fst (ws_connect ws_init)) ''connection_error'' 1) ''s1'' ''tok'') =
     [Console LvlWarn ''WebSocket not connected. Cannot start tracking.'']"
  by (simp add: ws_startTracking_def ws_connect_def ws_init_def ws_on_def)

text \<open>
  C7 (as amended). On the synthetic generator, \<^verbatim>\<open>pauseTracking\<close>,
  \<^verbatim>\<open>resumeTracking\<close> and \<^verbatim>\<open>stopTracking\<close> called while no session is active and no
  tick timer is set (before the first start, or after a stop) return normally and leave the
  whole state unchanged, and what they surface is the ordinary lifecycle event
  (\<^verbatim>\<open>session_paused\<close>, \<^verbatim>\<open>session_resumed\<close>, \<^verbatim>\<open>session_ended\<close>).
  \<^verbatim>\<open>RealWebSocketService\<close> keeps no session state: the three calls never change its
  state, forward the command to the transport whenever the service is connected, and only
  log a console error when it is not.
\<close>

theorem tracking_calls_without_session:
  "(\<not> mock_sessionActive m \<and> mock_focusSimulationInterval m = None \<longrightarrow>
        mock_pauseTracking thr m sid = (m, mock_emit thr m ''session_paused'' (SessionId sid))
      \<and> mock_resumeTracking thr m sid = (m, mock_emit thr m ''session_resumed'' (SessionId sid))
      \<and> mock_stopTracking thr m sid =
          (m, Console LvlLog ''Stopping mock tracking for session:''
                # mock_emit thr m ''session_ended'' (SessionId sid)))
   \<and> fst (real_pauseTracking s stored sid) = s
   \<and> fst (real_resumeTracking s stored sid) = s
   \<and> fst (real_stopTracking s stored sid) = s
   \<and> (real_socket s \<noteq> None \<and> real_isConnected s \<longrightarrow>
        snd (real_pauseTracking s stored sid) = [SocketEmit ''pause_tracking'' sid (Some stored)]
      \<and> snd (real_resumeTracking s stored sid) = [SocketEmit ''resume_tracking'' sid (Some stored)]
      \<and> snd (real_stopTracking s stored sid) = [SocketEmit ''stop_tracking'' sid (Some stored)])
   \<and> (real_socket s = None \<or> \<not> real_isConnected s \<longrightarrow>
        snd (real_pauseTracking s stored sid) = [Console LvlError ''WebSocket not connected'']
      \<and> snd (real_resumeTracking s stored sid) = [Console LvlError ''WebSocket not connected'']
      \<and> snd (real_stopTracking s stored sid) = [Console LvlError ''WebSocket not connected''])"
proof -
  have mock: "mock_pauseTracking thr m sid = (m, mock_emit thr m ''session_paused'' (SessionId sid))
      \<and> mock_resumeTracking thr m sid = (m, mock_emit thr m ''session_resumed'' (SessionId sid))
      \<and> mock_stopTracking thr m sid =
          (m, Console LvlLog ''Stopping mock tracking for session:''
                # mock_emit thr m ''session_ended'' (SessionId sid))"
    if "\<not> mock_sessionActive m" and "mock_focusSimulationInterval m = None"
  proof -
    have same: "m\<lparr>mock_sessionActive := False\<rparr> = m"
      using that(1) by (cases m) simp
    show ?thesis
      using that
      by (simp add: mock_pauseTracking_def mock_resumeTracking_def mock_stopTracking_def
          mock_clearInterval_def same)
  qed
  have real: "fst (real_pauseTracking s stored sid) = s" "fst (real_resumeTracking s stored sid) = s"
    "fst (real_stopTracking s stored sid) = s"
    by (simp_all add: real_pauseTracking_def real_resumeTracking_def real_stopTracking_def real_command_def)
  have conn: "snd (real_pauseTracking s stored sid) = [SocketEmit ''pause_tracking'' sid (Some stored)]
      \<and> snd (real_resumeTracking s stored sid) = [SocketEmit ''resume_tracking'' sid (Some stored)]
      \<and> snd (real_stopTracking s stored sid) = [SocketEmit ''stop_tracking'' sid (Some stored)]"
    if "real_socket s \<noteq> None \<and> real_isConnected s"
    using that
    by (simp add: real_pauseTracking_def real_resumeTracking_def real_stopTracking_def real_command_def)
  have disc: "snd (real_pauseTracking s stored sid) = [Console LvlError ''WebSocket not connected'']
      \<and> snd (real_resumeTracking s stored sid) = [Console LvlError ''WebSocket not connected'']
      \<and> snd (real_stopTracking s stored sid) = [Console LvlError ''WebSocket not connected'']"
    if "real_socket s = None \<or> \<not> real_isConnected s"
    using that
    by (auto simp: real_pauseTracking_def real_resumeTracking_def real_stopTracking_def real_command_def)
  show ?thesis
    using mock real conn disc by blast
qed

theorem tracking_calls_without_session_witness:
  "mock_resumeTracking (\<lambda>cb d. False) mock_init ''s1'' =
     (mock_init, [Emit ''session_resumed'' (SessionId ''s1'')])
   \<and> snd (real_resumeTracking (fst (real_on_connect (\<lambda>cb d. False)
        (fst (real_connect (\<lambda>cb d. False) False real_init)))) (Some ''tok'') ''s1'') =
       [SocketEmit ''resume_tracking'' ''s1'' (Some (Some ''tok''))]
   \<and> snd (real_resumeTracking real_init None ''s1'') = [Console LvlError ''WebSocket not connected'']"
  using tracking_calls_without_session [of mock_init "\<lambda>cb d. False" "''s1''"
      "fst (real_on_connect (\<lambda>cb d. False) (fst (real_connect (\<lambda>cb d. False) False real_init)))"
      "Some ''tok''"]
    tracking_calls_without_session [of mock_init "\<lambda>cb d. False" "''s1''" real_init None]
  by (simp add: mock_init_def mock_emit_def real_init_def real_connect_def real_on_connect_def Let_def)

text \<open>
  C7 as stated fails: resuming a stopped session is answered by the generator with a
  \<^verbatim>\<open>session_resumed\<close> event, and by the connected \<^verbatim>\<open>RealWebSocketService\<close> with a
  \<^verbatim>\<open>resume_tracking\<close> command sent to the backend. Neither signals an invalid
  transition, and the second is not a no-op.
\<close>

theorem resume_stopped_counterexample:
  "snd (mock_resumeTracking (\<lambda>cb d. False)
      (fst (mock_stopTracking (\<lambda>cb d. False)
         (fst (mock_startTracking (\<lambda>cb d. False) mock_init ''s1'' ''tok'')) ''s1'')) ''s1'') =
     [Emit ''session_resumed'' (SessionId ''s1'')]
   \<and> snd (real_steps (\<lambda>cb d. False) (Some ''tok'') real_init
        [RConnect False, RSockConnect, RStartTracking ''s1'' ''tok'', RStopTracking ''s1'',
         RResumeTracking ''s1'']) =
     [IoCreate, Console LvlLog ''Connected to WebSocket server'',
      Emit ''connection_status'' (ConnStatus True None),
      SocketEmit ''start_tracking'' ''s1'' (Some (Some ''tok'')),
      SocketEmit ''stop_tracking'' ''s1'' (Some (Some ''tok'')),
      SocketEmit ''resume_tracking'' ''s1'' (Some (Some ''tok''))]"
  by (simp add: mock_resumeTracking_def mock_stopTracking_def mock_startTracking_def
      mock_setInterval_def mock_clearInterval_def mock_emit_def mock_init_def real_defs Let_def)

text \<open>
  C10. In the synthetic generator, \<^verbatim>\<open>resumeTracking\<close> called after \<^verbatim>\<open>stopTracking\<close>
  publishes \<^verbatim>\<open>session_resumed\<close> to the subscribers of that topic, sets no interval timer
  and changes nothing in the state, and no tick produces anything afterwards, whichever
  timer fires. The same holds in every state whose session flag is false. When the session
  flag is true, \<^verbatim>\<open>resumeTracking\<close> sets a new interval timer, and a tick of that timer
  publishes a frame.
\<close>

theorem mock_resume_after_stop:
  "\<not> mock_sessionActive (fst (mock_stopTracking thr s sid))
   \<and> mock_focusSimulationInterval (fst (mock_stopTracking thr s sid)) = None
   \<and> fst (mock_resumeTracking thr (fst (mock_stopTracking thr s sid)) sid') =
       fst (mock_stopTracking thr s sid)
   \<and> emitted ''session_resumed''
       (snd (mock_resumeTracking thr (fst (mock_stopTracking thr s sid)) sid')) = [SessionId sid']
   \<and> invoked cb ''session_resumed''
       (snd (mock_resumeTracking thr (fst (mock_stopTracking thr s sid)) sid')) =
       replicate (count_list (listeners_of (mock_eventHandlers s) ''session_resumed'') cb) (SessionId sid')
   \<and> started (snd (mock_resumeTracking thr (fst (mock_stopTracking thr s sid)) sid')) = []
   \<and> mock_tick thr (fst (mock_resumeTracking thr (fst (mock_stopTracking thr s sid)) sid')) h e = []
   \<and> (\<not> mock_sessionActive s \<longrightarrow>
         started (snd (mock_resumeTracking thr s sid')) = []
       \<and> emitted ''session_resumed'' (snd (mock_resumeTracking thr s sid')) = [SessionId sid']
       \<and> mock_tick thr (fst (mock_resumeTracking thr s sid')) h e = [])
   \<and> (mock_sessionActive s \<longrightarrow>
         started (snd (mock_resumeTracking thr s sid')) = [mock_fresh s]
       \<and> mock_focusSimulationInterval (fst (mock_resumeTracking thr s sid')) = Some (mock_fresh s)
       \<and> emitted ''eye_tracking_data''
            (mock_tick thr (fst (mock_resumeTracking thr s sid')) (mock_fresh s) e) \<noteq> [])"
proof -
  let ?s1 = "fst (mock_stopTracking thr s sid)"
  have inact: "\<not> mock_sessionActive ?s1" and none: "mock_focusSimulationInterval ?s1 = None"
    and hs: "mock_eventHandlers ?s1 = mock_eventHandlers s"
    by (simp_all add: mock_stopTracking_state)
  note r = mock_resumeTracking_inactive [OF inact, of thr sid']
  have a: "fst (mock_resumeTracking thr ?s1 sid') = ?s1" by (simp add: r)
  have b: "emitted ''session_resumed'' (snd (mock_resumeTracking thr ?s1 sid')) = [SessionId sid']"
    by (simp add: r emitted_mock_emit)
  have c: "invoked cb ''session_resumed'' (snd (mock_resumeTracking thr ?s1 sid')) =
       replicate (count_list (listeners_of (mock_eventHandlers s) ''session_resumed'') cb) (SessionId sid')"
    by (simp add: r invoked_mock_emit hs)
  have d: "started (snd (mock_resumeTracking thr ?s1 sid')) = []"
    by (simp add: r started_mock_emit)
  have f: "mock_tick thr (fst (mock_resumeTracking thr ?s1 sid')) h e = []"
    using inact by (simp add: a mock_tick_inactive)
  have g: "started (snd (mock_resumeTracking thr s sid')) = []
       \<and> emitted ''session_resumed'' (snd (mock_resumeTracking thr s sid')) = [SessionId sid']
       \<and> mock_tick thr (fst (mock_resumeTracking thr s sid')) h e = []"
    if "\<not> mock_sessionActive s"
    using that
    by (simp add: mock_resumeTracking_inactive started_mock_emit emitted_mock_emit mock_tick_inactive)
  have i: "started (snd (mock_resumeTracking thr s sid')) = [mock_fresh s]
       \<and> mock_focusSimulationInterval (fst (mock_resumeTracking thr s sid')) = Some (mock_fresh s)
       \<and> emitted ''eye_tracking_data''
            (mock_tick thr (fst (mock_resumeTracking thr s sid')) (mock_fresh s) e) \<noteq> []"
    if act: "mock_sessionActive s"
  proof -
    have "mock_sessionActive (fst (mock_setInterval s))"
      using act by (simp add: mock_setInterval_def)
    then have "emitted ''eye_tracking_data''
        (mock_generateMockFocusData thr (fst (mock_setInterval s)) e) \<noteq> []"
      by (rule emitted_frame_active)
    then show ?thesis
      using act
      by (simp add: mock_resumeTracking_active started_mock_emit mock_tick_def)
         (simp add: mock_setInterval_def)
  qed
  show ?thesis
    using inact none a b c d f g i by blast
qed

theorem mock_resume_after_stop_witness:
  "mock_sessionActive (fst (mock_startTracking (\<lambda>cb d. False) mock_init ''s1'' ''tok''))
   \<and> started (snd (mock_resumeTracking (\<lambda>cb d. False)
        (fst (mock_startTracking (\<lambda>cb d. False) mock_init ''s1'' ''tok'')) ''s1'')) = [2]
   \<and> started (snd (mock_resumeTracking (\<lambda>cb d. False) (fst (mock_stopTracking (\<lambda>cb d. False)
        (fst (mock_startTracking (\<lambda>cb d. False) mock_init ''s1'' ''tok'')) ''s1'')) ''s1'')) = []
   \<and> \<not> mock_sessionActive mock_init
   \<and> emitted ''session_resumed'' (snd (mock_resumeTracking (\<lambda>cb d. False) mock_init ''s1'')) =
       [SessionId ''s1'']"
  using mock_resume_after_stop
    [of "\<lambda>cb d. False" "fst (mock_startTracking (\<lambda>cb d. False) mock_init ''s1'' ''tok'')" "''s1''" "''s1''"]
    mock_resume_after_stop [of "\<lambda>cb d. False" mock_init "''s1''" "''s1''"]
  by (simp add: mock_startTracking_def mock_setInterval_def mock_init_def)


subsection \<open>Frames and alerts\<close>

text \<open>
  C2 (as amended). \<^verbatim>\<open>RealWebSocketService\<close> has no cooldown: over any sequence of
  frames, whatever their timestamps, it publishes one \<^verbatim>\<open>eye_strain\<close> alert for every
  frame with \<^verbatim>\<open>eye_strain_level > 20\<close>, one \<^verbatim>\<open>low_attention\<close> alert for every frame
  with \<^verbatim>\<open>attention_score < 60\<close> and one \<^verbatim>\<open>distraction\<close> alert for every frame whose
  \<^verbatim>\<open>distraction_type\<close> is not \<^verbatim>\<open>none\<close>.
\<close>

theorem alerts_have_no_cooldown:
  "length (filter (\<lambda>a. a_type a = ''eye_strain'')
       (alerts_of (snd (real_steps thr stored s (map RSockTrackingData ds))))) =
     length (filter (\<lambda>d. eye_strain_level d > 20) ds)
   \<and> length (filter (\<lambda>a. a_type a = ''low_attention'')
       (alerts_of (snd (real_steps thr stored s (map RSockTrackingData ds))))) =
     length (filter (\<lambda>d. attention_score d < 60) ds)
   \<and> length (filter (\<lambda>a. a_type a = ''distraction'')
       (alerts_of (snd (real_steps thr stored s (map RSockTrackingData ds))))) =
     length (filter (\<lambda>d. distraction_type d \<noteq> ''none'') ds)"
proof -
  have "length (filter (\<lambda>a. a_type a = ''eye_strain'')
       (alerts_of (snd (real_steps thr stored s (map RSockTrackingData ds))))) =
     length (filter (\<lambda>d. eye_strain_level d > 20) ds)"
    by (simp only: count_kind real_frames_count) simp
  moreover have "length (filter (\<lambda>a. a_type a = ''low_attention'')
       (alerts_of (snd (real_steps thr stored s (map RSockTrackingData ds))))) =
     length (filter (\<lambda>d. attention_score d < 60) ds)"
    by (simp only: count_kind real_frames_count) simp
  moreover have "length (filter (\<lambda>a. a_type a = ''distraction'')
       (alerts_of (snd (real_steps thr stored s (map RSockTrackingData ds))))) =
     length (filter (\<lambda>d. distraction_type d \<noteq> ''none'') ds)"
    by (simp only: count_kind real_frames_count) simp
  ultimately show ?thesis
    by blast
qed

theorem alerts_have_no_cooldown_witness:
  "length (filter (\<lambda>a. a_type a = ''eye_strain'')
       (alerts_of (snd (real_steps (\<lambda>cb d. False) None real_init
          (map RSockTrackingData
             [wire_frame ''2024-01-01T10:00:00.000Z'' 75 ''none'' 25 90,
              wire_frame ''2024-01-01T10:00:01.000Z'' 75 ''none'' 15 90,
              wire_frame ''2024-01-01T10:00:02.000Z'' 75 ''none'' 26 90]))))) = 2"
  using alerts_have_no_cooldown [where thr = "\<lambda>cb d. False" and stored = None and s = real_init
      and ds = "[wire_frame ''2024-01-01T10:00:00.000Z'' 75 ''none'' 25 90,
        wire_frame ''2024-01-01T10:00:01.000Z'' 75 ''none'' 15 90,
        wire_frame ''2024-01-01T10:00:02.000Z'' 75 ''none'' 26 90]"]
  by (simp add: wire_frame_def del: real_steps.simps)

text \<open>
  C2 as stated fails: two frames of one session, one second apart, both with eye strain
  25, give two \<^verbatim>\<open>eye_strain\<close> alerts.
\<close>

theorem eye_strain_twice_counterexample:
  "map (\<lambda>a. (a_type a, a_timestamp a)) (alerts_of (snd (real_steps (\<lambda>cb d. False) None real_init
      [RSockTrackingData (wire_frame ''2024-01-01T10:00:00.000Z'' 75 ''none'' 25 90),
       RSockTrackingData (wire_frame ''2024-01-01T10:00:01.000Z'' 75 ''none'' 25 90)]))) =
     [(''eye_strain'', Iso ''2024-01-01T10:00:00.000Z''),
      (''eye_strain'', Iso ''2024-01-01T10:00:01.000Z'')]"
  by (simp add: real_on_tracking_data_def real_emit_def real_init_def wire_frame_def)

text \<open>
  The generator clamps its three scores: whatever the clock and \<^verbatim>\<open>Math.random()\<close>
  give, the frame it publishes, which is the frame every subscriber of
  \<^verbatim>\<open>eye_tracking_data\<close> receives, has its attention score in \<open>[0, 1]\<close>, its eye
  strain level in \<open>[0, 50]\<close> and its posture score in \<open>[60, 100]\<close>. The gaze is not
  clamped; it lies in range because \<^verbatim>\<open>Math.random()\<close> lies in \<open>[0, 1)\<close>.
\<close>

lemma mock_scores_clamped:
  assumes "mock_sessionActive m"
  shows "\<exists>md. emitted ''eye_tracking_data'' (mock_generateMockFocusData thr m e) = [MockFrame md]
      \<and> invoked cb ''eye_tracking_data'' (mock_generateMockFocusData thr m e) =
          replicate (count_list (listeners_of (mock_eventHandlers m) ''eye_tracking_data'') cb) (MockFrame md)
      \<and> 0 \<le> m_attention_score md \<and> m_attention_score md \<le> 1
      \<and> 0 \<le> m_eye_strain_level md \<and> m_eye_strain_level md \<le> 50
      \<and> 60 \<le> m_posture_score md \<and> m_posture_score md \<le> 100"
proof -
  from mock_frame_published [OF assms, of thr e cb] obtain md where
    md: "emitted ''eye_tracking_data'' (mock_generateMockFocusData thr m e) = [MockFrame md]"
      "invoked cb ''eye_tracking_data'' (mock_generateMockFocusData thr m e) =
        replicate (count_list (listeners_of (mock_eventHandlers m) ''eye_tracking_data'') cb) (MockFrame md)"
    and a: "m_attention_score md =
        max 0 (min 1 ((75 + sin (real_of_int (env_clock e 0) / 20000) * 20
          + (env_random e 0 - 0.5) * 10) / 100))"
    and b: "m_eye_strain_level md =
        max 0 (min 50 (15 + sin (real_of_int (env_clock e 0) / 30000) * 10
          + (env_random e 1 - 0.5) * 5))"
    and c: "m_posture_score md =
        max 60 (min 100 (85 + sin (real_of_int (env_clock e 0) / 25000) * 10
          + (env_random e 2 - 0.5) * 5))"
    by blast
  have "0 \<le> m_attention_score md" "m_attention_score md \<le> 1"
    unfolding a by (rule clamp_bounds, simp)+
  moreover have "0 \<le> m_eye_strain_level md" "m_eye_strain_level md \<le> 50"
    unfolding b by (rule clamp_bounds, simp)+
  moreover have "60 \<le> m_posture_score md" "m_posture_score md \<le> 100"
    unfolding c by (rule clamp_bounds, simp)+
  ultimately show ?thesis
    using md by blast
qed

lemma mock_frame_in_ranges:
  assumes act: "mock_sessionActive m"
    and rnd: "\<forall>k. 0 \<le> env_random e k \<and> env_random e k < 1"
  shows "\<exists>md. emitted ''eye_tracking_data'' (mock_generateMockFocusData thr m e) = [MockFrame md]
      \<and> invoked cb ''eye_tracking_data'' (mock_generateMockFocusData thr m e) =
          replicate (count_list (listeners_of (mock_eventHandlers m) ''eye_tracking_data'') cb)
            (MockFrame md)
      \<and> TelemetryFrame_ranges (m_attention_score md) (m_eye_strain_level md)
            (m_posture_score md) (m_gaze_position md)"
proof -
  from mock_frame_published [OF act, of thr e cb] obtain md where
    md: "emitted ''eye_tracking_data'' (mock_generateMockFocusData thr m e) = [MockFrame md]"
      "invoked cb ''eye_tracking_data'' (mock_generateMockFocusData thr m e) =
        replicate (count_list (listeners_of (mock_eventHandlers m) ''eye_tracking_data'') cb) (MockFrame md)"
    and a: "m_attention_score md =
        max 0 (min 1 ((75 + sin (real_of_int (env_clock e 0) / 20000) * 20
          + (env_random e 0 - 0.5) * 10) / 100))"
    and b: "m_eye_strain_level md =
        max 0 (min 50 (15 + sin (real_of_int (env_clock e 0) / 30000) * 10
          + (env_random e 1 - 0.5) * 5))"
    and c: "m_posture_score md =
        max 60 (min 100 (85 + sin (real_of_int (env_clock e 0) / 25000) * 10
          + (env_random e 2 - 0.5) * 5))"
    and g: "m_gaze_position md =
        (0.5 + (env_random e 4 - 0.5) * 0.3, 0.5 + (env_random e 5 - 0.5) * 0.3)"
    by blast
  have r: "0 \<le> env_random e k" "env_random e k < 1" for k
    using rnd by simp_all
  have "0 \<le> m_attention_score md" "m_attention_score md \<le> 1"
    unfolding a by (rule clamp_bounds, simp)+
  moreover have "0 \<le> m_eye_strain_level md" "m_eye_strain_level md \<le> 50"
    unfolding b by (rule clamp_bounds, simp)+
  moreover have "60 \<le> m_posture_score md" "m_posture_score md \<le> 100"
    unfolding c by (rule clamp_bounds, simp)+
  moreover have "-1 \<le> fst (m_gaze_position md)" "fst (m_gaze_position md) \<le> 1"
    "-1 \<le> snd (m_gaze_position md)" "snd (m_gaze_position md) \<le> 1"
    unfolding g fst_conv snd_conv by (rule mock_gaze_bounds; rule r)+
  ultimately have "TelemetryFrame_ranges (m_attention_score md) (m_eye_strain_level md)
            (m_posture_score md) (m_gaze_position md)"
    unfolding TelemetryFrame_ranges_def by linarith
  with md show ?thesis by blast
qed

text \<open>
  C3, evaluated at the failing input. A wire frame with attention score 75, on the scale
  of 0 to 100 that the threshold of the handler (\<^verbatim>\<open>attention_score < 60\<close>) assumes, is
  delivered by \<^verbatim>\<open>RealWebSocketService\<close> to a subscriber of \<^verbatim>\<open>eye_tracking_data\<close>
  with attention score 75: nothing is clamped or rescaled, and the frame delivered
  violates the range invariants. The generator, at a tick whose wave gives the same 75,
  delivers the attention score 0.75.
\<close>

theorem real_frame_unclamped:
  "invoked 7 ''eye_tracking_data'' (snd (real_on_tracking_data (\<lambda>cb d. False)
      (real_on real_init ''eye_tracking_data'' 7)
      (wire_frame ''2024-01-01T10:00:00.000Z'' 75 ''none'' 10 90))) =
     [Frame (transform (wire_frame ''2024-01-01T10:00:00.000Z'' 75 ''none'' 10 90))]
   \<and> t_attention_score (transform (wire_frame ''2024-01-01T10:00:00.000Z'' 75 ''none'' 10 90)) = 75
   \<and> \<not> TelemetryFrame_ranges
        (t_attention_score (transform (wire_frame ''2024-01-01T10:00:00.000Z'' 75 ''none'' 10 90)))
        (t_eye_strain_level (transform (wire_frame ''2024-01-01T10:00:00.000Z'' 75 ''none'' 10 90)))
        (t_posture_score (transform (wire_frame ''2024-01-01T10:00:00.000Z'' 75 ''none'' 10 90)))
        (t_gaze (transform (wire_frame ''2024-01-01T10:00:00.000Z'' 75 ''none'' 10 90)))
   \<and> invoked 7 ''eye_tracking_data'' (mock_generateMockFocusData (\<lambda>cb d. False)
        (fst (mock_startTracking (\<lambda>cb d. False) (mock_on mock_init ''eye_tracking_data'' 7) ''s1'' ''tok''))
        \<lparr>env_clock = (\<lambda>k. 0), env_random = (\<lambda>k. 1 / 2)\<rparr>) =
     [MockFrame \<lparr>m_timestamp = 0, m_attention_score = 3 / 4, m_eye_strain_level = 15,
        m_posture_score = 85, m_blink_rate = 35 / 2, m_gaze_position = (1 / 2, 1 / 2),
        m_focus_zones = (True, False), m_session_active = True\<rparr>]"
proof -
  have "invoked 7 ''eye_tracking_data'' (mock_generateMockFocusData (\<lambda>cb d. False)
        (fst (mock_startTracking (\<lambda>cb d. False) (mock_on mock_init ''eye_tracking_data'' 7) ''s1'' ''tok''))
        \<lparr>env_clock = (\<lambda>k. 0), env_random = (\<lambda>k. 1 / 2)\<rparr>) =
     [MockFrame \<lparr>m_timestamp = 0, m_attention_score = 3 / 4, m_eye_strain_level = 15,
        m_posture_score = 85, m_blink_rate = 35 / 2, m_gaze_position = (1 / 2, 1 / 2),
        m_focus_zones = (True, False), m_session_active = True\<rparr>]"
    by (simp add: mock_generateMockFocusData_def mock_startTracking_def mock_setInterval_def
        mock_on_def mock_init_def mock_emit_def on_listeners_def Let_def)
  then show ?thesis
    by (simp add: real_on_tracking_data_def real_emit_def real_on_def real_init_def on_listeners_def
        transform_def wire_frame_def TelemetryFrame_ranges_def)
qed

text \<open>
  C4 (as amended). For every frame that the \<^verbatim>\<open>tracking_data\<close> handler of
  \<^verbatim>\<open>RealWebSocketService\<close> receives: a \<^verbatim>\<open>low_attention\<close> alert is published if
  and only if \<^verbatim>\<open>attention_score < 60\<close>, and then one, with severity \<^verbatim>\<open>warning\<close>; a
  \<^verbatim>\<open>distraction\<close> alert if and only if \<^verbatim>\<open>distraction_type\<close> is not \<^verbatim>\<open>none\<close>,
  and then one, with severity \<^verbatim>\<open>info\<close>; an \<^verbatim>\<open>eye_strain\<close> alert if and only if
  \<^verbatim>\<open>eye_strain_level > 20\<close>, and then one, with severity \<^verbatim>\<open>warning\<close>.
\<close>

theorem alert_thresholds_in_code:
  "filter (\<lambda>k. fst k = ''low_attention'')
       (map kind_severity (alerts_of (snd (real_on_tracking_data thr s d)))) =
     (if attention_score d < 60 then [(''low_attention'', ''warning'')] else [])
   \<and> filter (\<lambda>k. fst k = ''distraction'')
       (map kind_severity (alerts_of (snd (real_on_tracking_data thr s d)))) =
     (if distraction_type d \<noteq> ''none'' then [(''distraction'', ''info'')] else [])
   \<and> filter (\<lambda>k. fst k = ''eye_strain'')
       (map kind_severity (alerts_of (snd (real_on_tracking_data thr s d)))) =
     (if eye_strain_level d > 20 then [(''eye_strain'', ''warning'')] else [])"
  by (simp only: real_on_tracking_data_alerts) simp

theorem alert_thresholds_in_code_witness:
  "filter (\<lambda>k. fst k = ''low_attention'')
       (map kind_severity (alerts_of (snd (real_on_tracking_data (\<lambda>cb d. False) real_init
          (wire_frame ''2024-01-01T10:00:00.000Z'' 50 ''phone'' 25 50))))) =
     [(''low_attention'', ''warning'')]
   \<and> filter (\<lambda>k. fst k = ''distraction'')
       (map kind_severity (alerts_of (snd (real_on_tracking_data (\<lambda>cb d. False) real_init
          (wire_frame ''2024-01-01T10:00:00.000Z'' 50 ''phone'' 25 50))))) =
     [(''distraction'', ''info'')]
   \<and> filter (\<lambda>k. fst k = ''eye_strain'')
       (map kind_severity (alerts_of (snd (real_on_tracking_data (\<lambda>cb d. False) real_init
          (wire_frame ''2024-01-01T10:00:00.000Z'' 50 ''phone'' 25 50))))) =
     [(''eye_strain'', ''warning'')]"
  using alert_thresholds_in_code [where thr = "\<lambda>cb d. False" and s = real_init
      and d = "wire_frame ''2024-01-01T10:00:00.000Z'' 50 ''phone'' 25 50"]
  by (simp add: wire_frame_def)

text \<open>
  C4 as stated fails: a frame with posture score 50 gets no alert, and a frame whose
  attention score is 0.75 gets a \<^verbatim>\<open>low_attention\<close> alert.
\<close>

theorem posture_alert_counterexample:
  "alerts_of (snd (real_on_tracking_data (\<lambda>cb d. False) real_init
      (wire_frame ''2024-01-01T10:00:00.000Z'' 75 ''none'' 10 50))) = []
   \<and> map kind_severity (alerts_of (snd (real_on_tracking_data (\<lambda>cb d. False) real_init
      (wire_frame ''2024-01-01T10:00:00.000Z'' 0.75 ''none'' 10 90)))) =
     [(''low_attention'', ''warning'')]"
  by (simp add: real_on_tracking_data_def real_emit_def real_init_def wire_frame_def kind_severity_def)


subsection \<open>Reconnection with backoff\<close>


















end
